theory Spec2Isabelle
  imports Complex_Main
begin

section \<open>JavaScript conventions used by the server\<close>

text \<open>
  A nullable column or an optional property is an \<open>option\<close>: \<open>None\<close> stands for
  \<open>null\<close> and \<open>undefined\<close> alike (the server never tells them apart).  The
  operator \<open>x || d\<close> yields \<open>d\<close> when \<open>x\<close> is falsy: \<open>null\<close>, the empty string,
  the number \<open>0\<close> or \<open>false\<close>.  An exception that escapes a handler is a value of
  \<open>js_error\<close>.
\<close>

datatype js_error = RangeError | TypeError

definition truthy_str :: "string option \<Rightarrow> bool" where
  "truthy_str x = (case x of None \<Rightarrow> False | Some s \<Rightarrow> s \<noteq> [])"

definition or_str :: "string option \<Rightarrow> string \<Rightarrow> string" where
  "or_str x d = (case x of None \<Rightarrow> d | Some s \<Rightarrow> if s = [] then d else s)"

definition or_opt :: "string option \<Rightarrow> string option \<Rightarrow> string option" where
  "or_opt x y = (if truthy_str x then x else y)"

definition or_int :: "int option \<Rightarrow> int \<Rightarrow> int" where
  "or_int x d = (case x of None \<Rightarrow> d | Some n \<Rightarrow> if n = 0 then d else n)"

definition or_bool :: "bool option \<Rightarrow> bool \<Rightarrow> bool" where
  "or_bool x d = (case x of None \<Rightarrow> d | Some b \<Rightarrow> if b then b else d)"

definition or_list :: "'a list option \<Rightarrow> 'a list \<Rightarrow> 'a list" where
  "or_list x d = (case x of None \<Rightarrow> d | Some xs \<Rightarrow> xs)"

text \<open>\<open>Array.prototype.find\<close>: the first element satisfying the predicate.\<close>

definition js_find :: "('a \<Rightarrow> bool) \<Rightarrow> 'a list \<Rightarrow> 'a option" where
  "js_find P xs = List.find P xs"

text \<open>\<open>xs[0]\<close>, which is \<open>undefined\<close> on the empty array.\<close>

definition first_elem :: "'a list \<Rightarrow> 'a option" where
  "first_elem xs = (case xs of [] \<Rightarrow> None | x # _ \<Rightarrow> Some x)"


section \<open>Rows of the database (schema.sql)\<close>

record agent_row =
  a_id :: string
  a_profile_id :: "string option"
  a_name :: string
  agent_type :: string
  voice_name :: "string option"
  language_code :: "string option"
  system_instruction :: "string option"
  greeting :: "string option"
  a_is_active :: "bool option"
  business_hours_start :: "string option"
  business_hours_end :: "string option"
  business_days :: "int list option"

record phone_row =
  phone_number :: string
  pn_profile_id :: "string option"
  agent_id :: "string option"
  is_primary :: "bool option"

record ivr_option_row =
  o_id :: string
  digit :: string
  o_agent_id :: "string option"
  action_type :: "string option"
  action_phone_number :: "string option"

record ivr_menu_row =
  m_id :: string
  m_profile_id :: "string option"
  m_name :: string
  greeting_text :: string
  timeout_seconds :: "int option"
  max_attempts :: "int option"
  m_is_active :: "bool option"
  ivr_options :: "ivr_option_row list"

record integration_row =
  i_id :: string
  i_profile_id :: "string option"
  integration_type :: string
  sip_uri :: "string option"
  extension_map :: "(string \<times> string) list option"
  forwarding_agent_id :: "string option"
  i_is_active :: "bool option"

record profile_row =
  p_id :: string
  client_name :: "string option"
  full_name :: "string option"
  routing_strategy :: "string option"
  call_recording_enabled :: "bool option"
  transcription_enabled :: "bool option"
  max_concurrent_calls :: "int option"
  monthly_minute_limit :: "int option"
  minutes_used :: "int option"

text \<open>
  The tables the resolver reads.  \<open>db_available\<close> is false when a request to the
  database fails (the client then reports an error instead of rows).
\<close>

record config_tables =
  db_available :: bool
  profiles :: "profile_row list"
  phone_numbers :: "phone_row list"
  ai_agents :: "agent_row list"
  ivr_menus :: "ivr_menu_row list"
  external_integrations :: "integration_row list"


section \<open>Configuration resolver (database/supabase-service.js)\<close>

record client_config =
  clientId :: string
  clientName :: "string option"
  routingStrategy :: string
  phoneNumber :: phone_row
  allPhoneNumbers :: "phone_row list"
  agents :: "agent_row list"
  ivrMenu :: "ivr_menu_row option"
  externalIntegrations :: "integration_row list"
  recordingEnabled :: bool
  transcriptionEnabled :: bool
  maxConcurrentCalls :: int
  minutesLimit :: int
  minutesUsed :: int

record cache_entry =
  data :: client_config
  expiresAt :: int

type_synonym config_cache = "string \<rightharpoonup> cache_entry"

text \<open>\<open>CACHE_TTL = 5 * 60 * 1000\<close> milliseconds.\<close>

definition CACHE_TTL :: int where
  "CACHE_TTL = 5 * 60 * 1000"

text \<open>\<open>.single()\<close>: the row when exactly one matches, an error otherwise.\<close>

definition single :: "'a list \<Rightarrow> 'a option" where
  "single rows = (case rows of [r] \<Rightarrow> Some r | _ \<Rightarrow> None)"

definition compile_config ::
  "profile_row \<Rightarrow> phone_row \<Rightarrow> phone_row list \<Rightarrow> agent_row list \<Rightarrow>
   ivr_menu_row option \<Rightarrow> integration_row list \<Rightarrow> client_config" where
  "compile_config clientProfile phoneData allPhones allAgents ivr integrations =
     \<lparr> clientId = p_id clientProfile,
       clientName = or_opt (client_name clientProfile) (full_name clientProfile),
       routingStrategy = or_str (routing_strategy clientProfile) ''single_number_ivr'',
       phoneNumber = phoneData,
       allPhoneNumbers = allPhones,
       agents = allAgents,
       ivrMenu = ivr,
       externalIntegrations = integrations,
       recordingEnabled = or_bool (call_recording_enabled clientProfile) True,
       transcriptionEnabled = or_bool (transcription_enabled clientProfile) True,
       maxConcurrentCalls = or_int (max_concurrent_calls clientProfile) 5,
       minutesLimit = or_int (monthly_minute_limit clientProfile) 1000,
       minutesUsed = or_int (minutes_used clientProfile) 0 \<rparr>"

text \<open>
  The part of \<open>getClientConfigByPhoneNumber\<close> inside \<open>try\<close>: the queries against
  the source of truth.  The result is the configuration (\<open>None\<close> for \<open>null\<close>) and
  the list of tables queried, in order.
\<close>

definition query_config :: "config_tables \<Rightarrow> string \<Rightarrow> client_config option \<times> string list" where
  "query_config db pn =
     (if \<not> db_available db then (None, [''phone_numbers''])
      else case single (filter (\<lambda>r. phone_number r = pn) (phone_numbers db)) of
        None \<Rightarrow> (None, [''phone_numbers''])
      | Some phoneData \<Rightarrow>
         (case (case pn_profile_id phoneData of
                  None \<Rightarrow> None
                | Some pid \<Rightarrow> js_find (\<lambda>p. p_id p = pid) (profiles db)) of
            None \<Rightarrow> (None, [''phone_numbers''])
          | Some clientProfile \<Rightarrow>
             (let allPhones =
                    filter (\<lambda>r. pn_profile_id r = Some (p_id clientProfile)) (phone_numbers db);
                  allAgents =
                    filter (\<lambda>a. a_profile_id a = Some (p_id clientProfile) \<and> a_is_active a = Some True)
                      (ai_agents db);
                  wantsIvr = (routing_strategy clientProfile = Some ''single_number_ivr''
                                \<and> is_primary phoneData = Some True);
                  ivr = (if wantsIvr
                         then single (filter (\<lambda>m. m_profile_id m = Some (p_id clientProfile)
                                                    \<and> m_is_active m = Some True) (ivr_menus db))
                         else None);
                  integrations =
                    filter (\<lambda>i. i_profile_id i = Some (p_id clientProfile) \<and> i_is_active i = Some True)
                      (external_integrations db)
              in (Some (compile_config clientProfile phoneData allPhones allAgents ivr integrations),
                  [''phone_numbers'', ''phone_numbers'', ''ai_agents'']
                    @ (if wantsIvr then [''ivr_menus''] else [])
                    @ [''external_integrations'']))))"

text \<open>
  \<open>getClientConfigByPhoneNumber\<close>: \<open>now\<close> is \<open>Date.now()\<close>.  The result is the
  returned configuration, the cache afterwards and the tables queried.
\<close>

definition getClientConfigByPhoneNumber ::
  "config_tables \<Rightarrow> int \<Rightarrow> config_cache \<Rightarrow> string \<Rightarrow>
   client_config option \<times> config_cache \<times> string list" where
  "getClientConfigByPhoneNumber db now cache pn =
     (case (case cache pn of
              None \<Rightarrow> None
            | Some cachedConfig \<Rightarrow> if expiresAt cachedConfig > now then Some (data cachedConfig) else None) of
        Some hit \<Rightarrow> (Some hit, cache, [])
      | None \<Rightarrow>
         (let cache1 = (case cache pn of None \<Rightarrow> cache | Some _ \<Rightarrow> cache(pn := None))
          in case query_config db pn of
               (None, qs) \<Rightarrow> (None, cache1, qs)
             | (Some config, qs) \<Rightarrow>
                 (Some config, cache1(pn \<mapsto> \<lparr> data = config, expiresAt = now + CACHE_TTL \<rparr>), qs)))"

text \<open>A sequence of resolver calls, each at its own time and database contents.\<close>

fun resolve_all ::
  "config_cache \<Rightarrow> (config_tables \<times> int \<times> string) list \<Rightarrow> client_config option list" where
  "resolve_all cache [] = []"
| "resolve_all cache ((db, now, pn) # rest) =
     (case getClientConfigByPhoneNumber db now cache pn of
        (r, cache', _) \<Rightarrow> r # resolve_all cache' rest)"


section \<open>Call sessions and their two stores\<close>

record ivr_context =
  menuId :: "string option"
  attempts :: "int option"

record call_session =
  clientConfig :: client_config
  selectedAgent :: "agent_row option"
  ivrContext :: "ivr_context option"
  callType :: string
  fromNumber :: string
  toNumber :: string
  startTime :: string

text \<open>
  \<open>call_sessions\<close> is the database table, keyed by \<open>call_sid\<close>, which schema.sql
  declares \<open>UNIQUE\<close>; \<open>callSessionStore\<close> is the in-process \<open>Map\<close>.
\<close>

record session_stores =
  sessions_available :: bool
  call_sessions :: "string \<rightharpoonup> call_session"
  callSessionStore :: "string \<rightharpoonup> call_session"

text \<open>
  \<open>storeCallSession\<close> issues a plain \<open>insert\<close>: a second row for the same
  \<open>call_sid\<close> violates the unique constraint, the error is logged and the table
  keeps the row it had.  (A trigger deletes rows a day after their insertion; the
  stores are followed here over the life of one call.)
\<close>

definition storeCallSession :: "string \<Rightarrow> call_session \<Rightarrow> session_stores \<Rightarrow> session_stores" where
  "storeCallSession callSid sessionData st =
     (if sessions_available st \<and> call_sessions st callSid = None
      then st\<lparr> call_sessions := (call_sessions st)(callSid \<mapsto> sessionData) \<rparr>
      else st)"

definition getCallSession :: "string \<Rightarrow> session_stores \<Rightarrow> call_session option" where
  "getCallSession callSid st = (if sessions_available st then call_sessions st callSid else None)"

text \<open>The lookup every handler performs: the database first, the in-process map second.\<close>

definition lookup_session :: "string \<Rightarrow> session_stores \<Rightarrow> call_session option" where
  "lookup_session callSid st =
     (case getCallSession callSid st of
        Some s \<Rightarrow> Some s
      | None \<Rightarrow> callSessionStore st callSid)"

text \<open>\<open>await storeCallSession(callSid, s); callSessionStore.set(callSid, s)\<close>.\<close>

definition save_session :: "string \<Rightarrow> call_session \<Rightarrow> session_stores \<Rightarrow> session_stores" where
  "save_session callSid s st =
     (let st1 = storeCallSession callSid s st
      in st1\<lparr> callSessionStore := (callSessionStore st1)(callSid \<mapsto> s) \<rparr>)"


section \<open>Webhook requests and call-control responses\<close>

text \<open>
  A request carries the form fields the handlers read, and the readings of the clock
  taken while it is served: \<open>at_iso\<close> is \<open>new Date().toISOString()\<close>; \<open>local_weekday\<close>
  (0 = Sunday), \<open>local_hour\<close> and \<open>local_minute\<close> are the wall clock in the time zone
  the handler asks for.
\<close>

record webhook_request =
  body_To :: string
  body_From :: string
  body_CallSid :: string
  body_Digits :: "string option"
  query_callSid :: "string option"
  query_extension :: "string option"
  at_iso :: string
  local_weekday :: nat
  local_hour :: nat
  local_minute :: nat

datatype twiml_verb =
    Say string
  | SayVoice string string string
  | Record_verb string int
  | Start_Stream string string
  | Pause int
  | Gather int string int string
  | Redirect string
  | Dial string
  | Dial_Sip string

type_synonym twiml = "twiml_verb list"

type_synonym handler_result = "js_error + (twiml \<times> session_stores)"

definition WEBSOCKET_URL :: string where
  "WEBSOCKET_URL = ''wss://work-2-uqgmjligulgfvwib.prod-runtime.all-hands.dev''"

definition default_greeting :: string where
  "default_greeting = ''Hello! I am your AI assistant. How can I help you today?''"

definition stream_verb :: "string \<Rightarrow> twiml_verb" where
  "stream_verb callSid = Start_Stream (WEBSOCKET_URL @ ''?callSid='' @ callSid) ''both_tracks''"

text \<open>The stream, the agent's greeting and the pause that every "connect" branch emits.\<close>

definition connect_twiml :: "string \<Rightarrow> agent_row \<Rightarrow> twiml" where
  "connect_twiml callSid agent =
     [stream_verb callSid,
      SayVoice ''alice'' (or_str (language_code agent) ''en-US'')
        (or_str (greeting agent) default_greeting),
      Pause 60]"

definition agent_session :: "client_config \<Rightarrow> agent_row \<Rightarrow> webhook_request \<Rightarrow> call_session" where
  "agent_session cfg agent req =
     \<lparr> clientConfig = cfg, selectedAgent = Some agent, ivrContext = None,
       callType = ''inbound'', fromNumber = body_From req, toNumber = body_To req,
       startTime = at_iso req \<rparr>"


section \<open>Session router: IVR entry (handleIVRRouting)\<close>

definition handleIVRRouting :: "webhook_request \<Rightarrow> client_config \<Rightarrow> session_stores \<Rightarrow> handler_result" where
  "handleIVRRouting req cfg st =
     (let callSid = body_CallSid req in
      case ivrMenu cfg of
        None \<Rightarrow>
          (case first_elem (agents cfg) of
             None \<Rightarrow> Inr ([Say ''Sorry, the menu system is not configured properly.''], st)
           | Some defaultAgent \<Rightarrow>
               Inr (connect_twiml callSid defaultAgent,
                    save_session callSid (agent_session cfg defaultAgent req) st))
      | Some menu \<Rightarrow>
          Inr ([Gather 1 (''/webhook/ivr-selection?callSid='' @ callSid)
                  (or_int (timeout_seconds menu) 10) (greeting_text menu),
                Redirect (''/webhook/ivr-timeout?callSid='' @ callSid)],
               save_session callSid
                 \<lparr> clientConfig = cfg, selectedAgent = None,
                   ivrContext = Some \<lparr> menuId = Some (m_id menu), attempts = Some 0 \<rparr>,
                   callType = ''inbound'', fromNumber = body_From req, toNumber = body_To req,
                   startTime = at_iso req \<rparr> st))"


section \<open>Session router: external integration (handleExternalIntegration)\<close>

text \<open>
  The read \<open>extensionMap[extension]\<close> on the object decoded from the
  \<open>extension_map\<close> entry of the integration's configuration (its keys are distinct):
  the object's own entry if it has one; otherwise, for the names every object inherits
  from \<open>Object.prototype\<close>, the inherited function or object, which is truthy and
  equal to no agent id; otherwise \<open>undefined\<close>.
\<close>

datatype js_property = Undefined | Own string | Inherited

definition inherited_names :: "string list" where
  "inherited_names =
     [''constructor'', ''__defineGetter__'', ''__defineSetter__'', ''hasOwnProperty'',
      ''__lookupGetter__'', ''__lookupSetter__'', ''isPrototypeOf'', ''propertyIsEnumerable'',
      ''toString'', ''valueOf'', ''__proto__'', ''toLocaleString'']"

definition object_get :: "(string \<times> string) list \<Rightarrow> string \<Rightarrow> js_property" where
  "object_get obj key =
     (case map_of obj key of
        Some v \<Rightarrow> Own v
      | None \<Rightarrow> if key \<in> set inherited_names then Inherited else Undefined)"

definition handleExternalIntegration ::
  "webhook_request \<Rightarrow> client_config \<Rightarrow> session_stores \<Rightarrow> handler_result" where
  "handleExternalIntegration req cfg st =
     (let callSid = body_CallSid req in
      case first_elem (externalIntegrations cfg) of
        None \<Rightarrow>
          (case first_elem (agents cfg) of
             None \<Rightarrow> Inr ([Say ''Sorry, external integration is not configured properly.''], st)
           | Some defaultAgent \<Rightarrow>
               Inr (connect_twiml callSid defaultAgent,
                    save_session callSid (agent_session cfg defaultAgent req) st))
      | Some integration \<Rightarrow>
          if integration_type integration = ''sip'' then
            (if \<not> truthy_str (sip_uri integration)
             then Inr ([Say ''Sorry, SIP integration is not configured properly.''], st)
             else Inr ([Dial_Sip (the (sip_uri integration))], st))
          else if integration_type integration = ''extension'' then
            (let extension = or_opt (body_Digits req) (query_extension req) in
             if \<not> truthy_str extension
             then Inr ([Say ''Sorry, no extension was provided.''], st)
             else
               (case object_get (or_list (extension_map integration) []) (the extension) of
                  Undefined \<Rightarrow> Inr ([Say ''Sorry, that extension is not valid.''], st)
                | Inherited \<Rightarrow>
                    Inr ([Say ''Sorry, the AI agent for this extension is not available.''], st)
                | Own agentId \<Rightarrow>
                    if agentId = []
                    then Inr ([Say ''Sorry, that extension is not valid.''], st)
                    else
                      (case js_find (\<lambda>a. a_id a = agentId) (agents cfg) of
                         None \<Rightarrow>
                           Inr ([Say ''Sorry, the AI agent for this extension is not available.''], st)
                       | Some agent \<Rightarrow>
                           Inr (connect_twiml callSid agent,
                                save_session callSid (agent_session cfg agent req) st))))
          else if integration_type integration = ''forwarding'' then
            (if \<not> truthy_str (forwarding_agent_id integration)
             then Inr ([Say ''Sorry, forwarding is not configured properly.''], st)
             else case js_find (\<lambda>a. a_id a = the (forwarding_agent_id integration)) (agents cfg) of
                None \<Rightarrow> Inr ([Say ''Sorry, the AI agent is not available.''], st)
              | Some agentForwarding \<Rightarrow>
                  Inr (connect_twiml callSid agentForwarding,
                       save_session callSid (agent_session cfg agentForwarding req) st))
          else Inr ([Say ''Sorry, this integration type is not supported.''], st))"


section \<open>Session router: time-based routing (handleTimeBasedRouting)\<close>

text \<open>
  \<open>Intl.DateTimeFormat\<close> validates its options when it is constructed: the
  \<open>weekday\<close> option admits \<open>narrow\<close>, \<open>short\<close> and \<open>long\<close> only, and any other
  value raises a \<open>RangeError\<close> (ECMA-402, GetOption).  \<open>intl_weekday\<close> formats the
  weekday \<open>d\<close> (0 = Sunday) in the \<open>en-US\<close> locale.
\<close>

definition long_day :: "nat \<Rightarrow> string" where
  "long_day d =
     [''Sunday'', ''Monday'', ''Tuesday'', ''Wednesday'', ''Thursday'', ''Friday'', ''Saturday'']
       ! (d mod 7)"

definition intl_weekday :: "string \<Rightarrow> nat \<Rightarrow> js_error + string" where
  "intl_weekday style d =
     (if style = ''long'' then Inr (long_day d)
      else if style = ''short'' then Inr (take 3 (long_day d))
      else if style = ''narrow'' then Inr (take 1 (long_day d))
      else Inl RangeError)"

text \<open>
  The time of day with \<open>hour: 'numeric', minute: 'numeric', hour12: false\<close>: two
  digits each, separated by a colon.
\<close>

definition dec_digit :: "nat \<Rightarrow> char" where
  "dec_digit n = ''0123456789'' ! (n mod 10)"

definition intl_hour_minute :: "nat \<Rightarrow> nat \<Rightarrow> string" where
  "intl_hour_minute h m =
     [dec_digit (h div 10), dec_digit h] @ '':'' @ [dec_digit (m div 10), dec_digit m]"

text \<open>
  JavaScript numbers: \<open>NaN\<close>, the two infinities, and the finite doubles, each
  written as the rational it denotes (\<open>-0\<close> as 0: the handler only compares).
  \<open>to_double\<close> rounds a rational to the nearest double (ties to the even
  significand, 53 bits, exponents down to the subnormals, overflow to infinity).
\<close>

datatype js_num = NaN | Fin rat | PosInf | NegInf

function bit_length :: "int \<Rightarrow> nat" where
  "bit_length n = (if n \<le> 0 then 0 else Suc (bit_length (n div 2)))"
  by pat_completeness auto
termination
  by (relation "measure nat") auto

definition pow2 :: "int \<Rightarrow> rat" where
  "pow2 e = (if e \<ge> 0 then 2 ^ nat e else 1 / 2 ^ nat (- e))"

definition pow10 :: "int \<Rightarrow> rat" where
  "pow10 e = (if e \<ge> 0 then 10 ^ nat e else 1 / 10 ^ nat (- e))"

text \<open>\<open>\<lfloor>log\<^sub>2 a\<rfloor>\<close> of a positive rational.\<close>

definition floor_log2 :: "rat \<Rightarrow> int" where
  "floor_log2 a =
     (case quotient_of a of
        (p, q) \<Rightarrow>
          (let d = int (bit_length p) - int (bit_length q)
           in if pow2 d \<le> a then d else d - 1))"

definition round_half_even :: "rat \<Rightarrow> int" where
  "round_half_even m =
     (let f = \<lfloor>m\<rfloor>; r = m - of_int f
      in if r < 1 / 2 then f
         else if r > 1 / 2 then f + 1
         else if even f then f else f + 1)"

definition to_double :: "rat \<Rightarrow> js_num" where
  "to_double r =
     (if r = 0 then Fin 0
      else
        (let a = \<bar>r\<bar>;
             e = max (floor_log2 a - 52) (- 1074);
             v = of_int (round_half_even (a / pow2 e)) * pow2 e
         in if v \<ge> 2 ^ 1024 then (if r < 0 then NegInf else PosInf)
            else Fin (if r < 0 then - v else v)))"

fun js_neg :: "js_num \<Rightarrow> js_num" where
  "js_neg NaN = NaN"
| "js_neg (Fin a) = Fin (- a)"
| "js_neg PosInf = NegInf"
| "js_neg NegInf = PosInf"

fun js_times :: "js_num \<Rightarrow> js_num \<Rightarrow> js_num" where
  "js_times (Fin a) (Fin b) = to_double (a * b)"
| "js_times NaN _ = NaN"
| "js_times _ NaN = NaN"
| "js_times (Fin a) PosInf = (if a = 0 then NaN else if a < 0 then NegInf else PosInf)"
| "js_times (Fin a) NegInf = (if a = 0 then NaN else if a < 0 then PosInf else NegInf)"
| "js_times PosInf (Fin b) = (if b = 0 then NaN else if b < 0 then NegInf else PosInf)"
| "js_times NegInf (Fin b) = (if b = 0 then NaN else if b < 0 then PosInf else NegInf)"
| "js_times PosInf PosInf = PosInf"
| "js_times PosInf NegInf = NegInf"
| "js_times NegInf PosInf = NegInf"
| "js_times NegInf NegInf = PosInf"

fun js_plus :: "js_num \<Rightarrow> js_num \<Rightarrow> js_num" where
  "js_plus (Fin a) (Fin b) = to_double (a + b)"
| "js_plus NaN _ = NaN"
| "js_plus _ NaN = NaN"
| "js_plus PosInf NegInf = NaN"
| "js_plus NegInf PosInf = NaN"
| "js_plus PosInf _ = PosInf"
| "js_plus NegInf _ = NegInf"
| "js_plus _ PosInf = PosInf"
| "js_plus _ NegInf = NegInf"

text \<open>\<open>a <= b\<close>; \<open>a >= b\<close> is \<open>b <= a\<close>.  Every comparison with \<open>NaN\<close> is false.\<close>

fun js_le :: "js_num \<Rightarrow> js_num \<Rightarrow> bool" where
  "js_le (Fin a) (Fin b) = (a \<le> b)"
| "js_le NaN _ = False"
| "js_le _ NaN = False"
| "js_le NegInf _ = True"
| "js_le _ PosInf = True"
| "js_le PosInf _ = False"
| "js_le _ NegInf = False"

text \<open>
  \<open>Number(s)\<close> on a string of characters below U+0100: white space (tab, line
  feed, vertical tab, form feed, carriage return, space, no-break space) is trimmed; the
  empty string is 0; \<open>0x\<close>, \<open>0o\<close> and \<open>0b\<close> (in either case) introduce
  unsigned hexadecimal, octal and binary digits; otherwise an optional sign precedes
  \<open>Infinity\<close> or a decimal literal with optional fraction and exponent.  Anything
  else is \<open>NaN\<close>.
\<close>

definition is_space :: "char \<Rightarrow> bool" where
  "is_space c =
     (c \<in> set [CHR 0x09, CHR 0x0A, CHR 0x0B, CHR 0x0C, CHR 0x0D, CHR 0x20, CHR 0xA0])"

definition trim :: "string \<Rightarrow> string" where
  "trim s = rev (dropWhile is_space (rev (dropWhile is_space s)))"

definition digit_value :: "char \<Rightarrow> int option" where
  "digit_value c =
     map_of [(CHR ''0'', 0), (CHR ''1'', 1), (CHR ''2'', 2), (CHR ''3'', 3), (CHR ''4'', 4),
             (CHR ''5'', 5), (CHR ''6'', 6), (CHR ''7'', 7), (CHR ''8'', 8), (CHR ''9'', 9),
             (CHR ''a'', 10), (CHR ''b'', 11), (CHR ''c'', 12), (CHR ''d'', 13), (CHR ''e'', 14),
             (CHR ''f'', 15), (CHR ''A'', 10), (CHR ''B'', 11), (CHR ''C'', 12), (CHR ''D'', 13),
             (CHR ''E'', 14), (CHR ''F'', 15)] c"

definition is_dec :: "char \<Rightarrow> bool" where
  "is_dec c = (c \<in> set ''0123456789'')"

text \<open>The value of a string of digits in base \<open>b\<close>, from the accumulator \<open>acc\<close>.\<close>

fun digits_in :: "int \<Rightarrow> int \<Rightarrow> string \<Rightarrow> int option" where
  "digits_in b acc [] = Some acc"
| "digits_in b acc (c # cs) =
     (case digit_value c of
        None \<Rightarrow> None
      | Some v \<Rightarrow> if v < b then digits_in b (b * acc + v) cs else None)"

text \<open>At least one digit.\<close>

definition digits_value :: "int \<Rightarrow> string \<Rightarrow> int option" where
  "digits_value b s = (if s = [] then None else digits_in b 0 s)"

text \<open>The exponent part that ends a decimal literal: absent, or \<open>e\<close> and a signed integer.\<close>

definition exponent_of :: "string \<Rightarrow> int option" where
  "exponent_of s =
     (case s of
        [] \<Rightarrow> Some 0
      | c # r \<Rightarrow>
          if c = CHR ''e'' \<or> c = CHR ''E'' then
            (case r of
               [] \<Rightarrow> None
             | d # r' \<Rightarrow>
                 if d = CHR ''+'' then digits_value 10 r'
                 else if d = CHR ''-'' then map_option uminus (digits_value 10 r')
                 else digits_value 10 r)
          else None)"

definition unsigned_decimal :: "string \<Rightarrow> js_num" where
  "unsigned_decimal s =
     (if s = ''Infinity'' then PosInf
      else
        (let ip = takeWhile is_dec s;
             r1 = dropWhile is_dec s;
             fp = (case r1 of [] \<Rightarrow> [] | c # r \<Rightarrow> if c = CHR ''.'' then takeWhile is_dec r else []);
             r2 = (case r1 of [] \<Rightarrow> [] | c # r \<Rightarrow> if c = CHR ''.'' then dropWhile is_dec r else r1)
         in if ip = [] \<and> fp = [] then NaN
            else case (digits_in 10 0 ip, digits_in 10 0 fp, exponent_of r2) of
                   (Some i, Some f, Some e) \<Rightarrow>
                      to_double ((of_int i + of_int f / 10 ^ length fp) * pow10 e)
                 | _ \<Rightarrow> NaN))"

definition js_Number :: "string \<Rightarrow> js_num" where
  "js_Number str =
     (let s = trim str
      in if s = [] then Fin 0
         else if take 2 s = ''0x'' \<or> take 2 s = ''0X'' then
           (case digits_value 16 (drop 2 s) of None \<Rightarrow> NaN | Some n \<Rightarrow> to_double (of_int n))
         else if take 2 s = ''0o'' \<or> take 2 s = ''0O'' then
           (case digits_value 8 (drop 2 s) of None \<Rightarrow> NaN | Some n \<Rightarrow> to_double (of_int n))
         else if take 2 s = ''0b'' \<or> take 2 s = ''0B'' then
           (case digits_value 2 (drop 2 s) of None \<Rightarrow> NaN | Some n \<Rightarrow> to_double (of_int n))
         else case s of
                [] \<Rightarrow> Fin 0
              | c # r \<Rightarrow>
                  if c = CHR ''+'' then unsigned_decimal r
                  else if c = CHR ''-'' then js_neg (unsigned_decimal r)
                  else unsigned_decimal s)"

text \<open>\<open>s.split(':')\<close>.\<close>

fun split_colon :: "string \<Rightarrow> string list" where
  "split_colon [] = [[]]"
| "split_colon (c # cs) =
     (if c = CHR '':'' then [] # split_colon cs
      else case split_colon cs of
             [] \<Rightarrow> [[c]]
           | w # ws \<Rightarrow> (c # w) # ws)"

text \<open>
  \<open>const [h, m] = s.split(':').map(Number); h * 60 + m\<close>: a missing component is
  \<open>undefined\<close>, which makes the sum \<open>NaN\<close>.
\<close>

definition minutes_of :: "string \<Rightarrow> js_num" where
  "minutes_of s =
     (case map js_Number (split_colon s) of
        h # m # _ \<Rightarrow> js_plus (js_times h (Fin 60)) m
      | _ \<Rightarrow> NaN)"

definition dayMap :: "(string \<times> int) list" where
  "dayMap = [(''Sunday'', 0), (''Monday'', 1), (''Tuesday'', 2), (''Wednesday'', 3),
             (''Thursday'', 4), (''Friday'', 5), (''Saturday'', 6)]"

text \<open>
  The loop over the agents: the first \<open>general\<close> agent is the business-hours agent,
  the last \<open>after_hours\<close> agent is the after-hours agent.
\<close>

fun scan_agents ::
  "agent_row list \<Rightarrow> agent_row option \<Rightarrow> agent_row option \<Rightarrow> agent_row option \<times> agent_row option" where
  "scan_agents [] bh ah = (bh, ah)"
| "scan_agents (agent # rest) bh ah =
     (if agent_type agent = ''general''
      then scan_agents rest (case bh of None \<Rightarrow> Some agent | Some b \<Rightarrow> Some b) ah
      else if agent_type agent = ''after_hours''
      then scan_agents rest bh (Some agent)
      else scan_agents rest bh ah)"

definition businessHoursAgent_of :: "client_config \<Rightarrow> agent_row option" where
  "businessHoursAgent_of cfg =
     (case fst (scan_agents (agents cfg) None None) of
        None \<Rightarrow> first_elem (agents cfg)
      | Some b \<Rightarrow> Some b)"

definition afterHoursAgent_of :: "client_config \<Rightarrow> agent_row option" where
  "afterHoursAgent_of cfg =
     (case snd (scan_agents (agents cfg) None None) of
        None \<Rightarrow> (if agents cfg = [] then None else businessHoursAgent_of cfg)
      | Some a \<Rightarrow> Some a)"

text \<open>
  \<open>isBusinessHours\<close>, from the weekday number read out of \<open>dayMap\<close> (\<open>None\<close> when
  the key is absent) and the formatted time of day.
\<close>

definition isBusinessHours :: "client_config \<Rightarrow> int option \<Rightarrow> string \<Rightarrow> bool" where
  "isBusinessHours cfg dayOfWeek clientTime =
     (let bh = businessHoursAgent_of cfg;
          businessDays = or_list (case bh of None \<Rightarrow> None | Some b \<Rightarrow> business_days b) [1, 2, 3, 4, 5];
          isBusinessDay = (case dayOfWeek of None \<Rightarrow> False | Some d \<Rightarrow> d \<in> set businessDays)
      in if isBusinessDay then
           (let businessHoursStart =
                  or_str (case bh of None \<Rightarrow> None | Some b \<Rightarrow> business_hours_start b) ''09:00'';
                businessHoursEnd =
                  or_str (case bh of None \<Rightarrow> None | Some b \<Rightarrow> business_hours_end b) ''17:00'';
                currentMinutes = minutes_of clientTime;
                startMinutes = minutes_of businessHoursStart;
                endMinutes = minutes_of businessHoursEnd
            in js_le startMinutes currentMinutes \<and> js_le currentMinutes endMinutes)
         else False)"

definition time_based_agent :: "client_config \<Rightarrow> int option \<Rightarrow> string \<Rightarrow> agent_row option" where
  "time_based_agent cfg dayOfWeek clientTime =
     (if isBusinessHours cfg dayOfWeek clientTime
      then businessHoursAgent_of cfg else afterHoursAgent_of cfg)"

definition handleTimeBasedRouting ::
  "webhook_request \<Rightarrow> client_config \<Rightarrow> session_stores \<Rightarrow> handler_result" where
  "handleTimeBasedRouting req cfg st =
     (let callSid = body_CallSid req;
          clientTime = intl_hour_minute (local_hour req) (local_minute req)
      in case intl_weekday ''numeric'' (local_weekday req) of
           Inl e \<Rightarrow> Inl e
         | Inr clientDay \<Rightarrow>
             (case time_based_agent cfg (map_of dayMap clientDay) clientTime of
                None \<Rightarrow>
                  Inr ([Say ''Sorry, no agents are available at this time. Please call back during business hours.''], st)
              | Some chosen \<Rightarrow>
                  Inr (connect_twiml callSid chosen,
                       save_session callSid (agent_session cfg chosen req) st)))"


section \<open>Session router: the voice webhook\<close>

definition strategy_dispatch ::
  "webhook_request \<Rightarrow> client_config \<Rightarrow> session_stores \<Rightarrow> handler_result" where
  "strategy_dispatch req cfg st =
     (if routingStrategy cfg = ''single_number_ivr'' then handleIVRRouting req cfg st
      else if routingStrategy cfg = ''external_integration'' then handleExternalIntegration req cfg st
      else if routingStrategy cfg = ''time_based'' then handleTimeBasedRouting req cfg st
      else case first_elem (agents cfg) of
             None \<Rightarrow> Inr ([Say ''Sorry, no AI agents are available. Please try again later.''], st)
           | Some defaultAgent \<Rightarrow>
               Inr (connect_twiml (body_CallSid req) defaultAgent,
                    save_session (body_CallSid req) (agent_session cfg defaultAgent req) st))"

text \<open>The handler of \<open>/webhook/voice\<close> once the configuration is resolved.\<close>

definition route_voice ::
  "webhook_request \<Rightarrow> client_config \<Rightarrow> session_stores \<Rightarrow> handler_result" where
  "route_voice req cfg st =
     (if truthy_str (agent_id (phoneNumber cfg)) then
        (case js_find (\<lambda>a. Some (a_id a) = agent_id (phoneNumber cfg)) (agents cfg) of
           None \<Rightarrow> Inr ([Say ''Sorry, the AI agent for this number is not available.''], st)
         | Some agent \<Rightarrow>
             Inr ((if recordingEnabled cfg then [Record_verb ''/webhook/recording'' 14400] else [])
                    @ connect_twiml (body_CallSid req) agent,
                  save_session (body_CallSid req) (agent_session cfg agent req) st))
      else strategy_dispatch req cfg st)"

definition voice_webhook ::
  "config_tables \<Rightarrow> int \<Rightarrow> webhook_request \<Rightarrow> config_cache \<Rightarrow> session_stores \<Rightarrow>
   handler_result \<times> config_cache" where
  "voice_webhook db now req cache st =
     (case getClientConfigByPhoneNumber db now cache (body_To req) of
        (None, cache', _) \<Rightarrow> (Inr ([Say ''Sorry, this number is not configured properly.''], st), cache')
      | (Some cfg, cache', _) \<Rightarrow> (route_voice req cfg st, cache'))"


section \<open>Session router: IVR digit submission and timeout\<close>

definition ivr_selection :: "webhook_request \<Rightarrow> session_stores \<Rightarrow> handler_result" where
  "ivr_selection req st =
     (let digits = body_Digits req;
          callSid = or_str (query_callSid req) (body_CallSid req)
      in case lookup_session callSid st of
        None \<Rightarrow> Inr ([Say ''Sorry, there was an error processing your selection. Please call back.''], st)
      | Some callSession \<Rightarrow>
         (case ivrMenu (clientConfig callSession) of
            None \<Rightarrow> Inl TypeError
          | Some menu \<Rightarrow>
             (case js_find (\<lambda>opt. Some (digit opt) = digits) (ivr_options menu) of
                None \<Rightarrow>
                  (let ctx = (case ivrContext callSession of
                                None \<Rightarrow> \<lparr> menuId = None, attempts = None \<rparr>
                              | Some c \<Rightarrow> c);
                       n = or_int (attempts ctx) 0 + 1
                   in if n \<ge> or_int (max_attempts menu) 3 then
                        (case first_elem (agents (clientConfig callSession)) of
                           None \<Rightarrow> Inr ([Say ''Sorry, no agents are available. Please try again later.''], st)
                         | Some defaultAgent \<Rightarrow>
                             Inr ([stream_verb callSid,
                                   Say ''I'll connect you with our general assistant.'',
                                   Pause 60],
                                  save_session callSid
                                    (callSession\<lparr> selectedAgent := Some defaultAgent, ivrContext := None \<rparr>) st))
                      else
                        Inr ([Gather 1 (''/webhook/ivr-selection?callSid='' @ callSid)
                                (or_int (timeout_seconds menu) 10)
                                (''Sorry, that's not a valid option. '' @ greeting_text menu),
                              Redirect (''/webhook/ivr-timeout?callSid='' @ callSid)],
                             save_session callSid
                               (callSession\<lparr> ivrContext := Some (ctx\<lparr> attempts := Some n \<rparr>) \<rparr>) st))
              | Some selectedOption \<Rightarrow>
                  if action_type selectedOption = Some ''agent'' then
                    (case js_find (\<lambda>a. Some (a_id a) = o_agent_id selectedOption)
                            (agents (clientConfig callSession)) of
                       None \<Rightarrow>
                         Inr ([Say ''Sorry, the selected department is not available. Please try again later.''], st)
                     | Some chosen \<Rightarrow>
                         Inr (connect_twiml callSid chosen,
                              save_session callSid
                                (callSession\<lparr> selectedAgent := Some chosen, ivrContext := None \<rparr>) st))
                  else if action_type selectedOption = Some ''transfer'' then
                    (if \<not> truthy_str (action_phone_number selectedOption)
                     then Inr ([Say ''Sorry, the transfer number is not configured properly.''], st)
                     else Inr ([Say ''Transferring your call. Please hold.'',
                                Dial (the (action_phone_number selectedOption))], st))
                  else if action_type selectedOption = Some ''voicemail'' then
                    Inr ([Say ''Please leave a message after the tone.'',
                          Record_verb ''/webhook/voicemail'' 300], st)
                  else Inr ([Say ''Sorry, that option is not available.''], st))))"

definition ivr_timeout :: "webhook_request \<Rightarrow> session_stores \<Rightarrow> handler_result" where
  "ivr_timeout req st =
     (case (case query_callSid req of None \<Rightarrow> None | Some callSid \<Rightarrow> lookup_session callSid st) of
        None \<Rightarrow> Inr ([Say ''Sorry, there was an error processing your call. Please call back.''], st)
      | Some callSession \<Rightarrow>
         (case first_elem (agents (clientConfig callSession)) of
            None \<Rightarrow> Inr ([Say ''Sorry, no agents are available. Please try again later.''], st)
          | Some defaultAgent \<Rightarrow>
              Inr ([stream_verb (the (query_callSid req)),
                    Say ''I'll connect you with our assistant.'',
                    Pause 60],
                   save_session (the (query_callSid req))
                     (callSession\<lparr> selectedAgent := Some defaultAgent, ivrContext := None \<rparr>) st)))"


section \<open>Duplex relay: one telephony socket and its speech client\<close>

text \<open>
  Everything a handler does to the outside is appended to a list in the socket's state:
  \<open>to_gemini\<close> (calls on the speech client), \<open>to_twilio\<close> (calls on the telephony
  socket, whose interface offers \<open>send\<close> and \<open>close\<close>), \<open>sink\<close> (calls on the
  call-record functions of supabase-service.js) and \<open>console\<close> (the lines the
  handlers of the server file log, without their pictographs and variable parts; the
  database functions' own error lines are not among them).  The audio converter is a
  package outside this program: a converted payload is kept symbolic, and a conversion
  is taken to succeed.  The speech client is created for every connection, so the
  handlers' tests \<open>if (socket.geminiLive)\<close> always pass; the field
  \<open>geminiLive\<close> records the options the client was created with.
\<close>

datatype audio_payload = MuLawToPCM16k string | PCM24kToMuLaw8k string

datatype gemini_command =
    SendRealtimeInput audio_payload
  | Gemini_send string
  | Gemini_close

datatype twilio_command =
    Media_out "string option" audio_payload
  | Twilio_close

datatype sink_call =
    CreateCallLog string string string
  | UpdateCallLog string string string int string
  | IncrementMinutesUsed string int

record gemini_setup =
  setup_systemInstruction :: string
  setup_voiceName :: string
  setup_languageCode :: string

record relay_socket =
  agentInfo :: "agent_row option"
  clientInfo :: "client_config option"
  socket_callSession :: "call_session option"
  geminiLive :: gemini_setup
  twilioStreamSid :: "string option"
  callStartTime :: int
  transcript :: string
  lastUserSpeech :: "int option"
  callLogId :: "string option"
  timers :: "nat list"
  to_gemini :: "gemini_command list"
  to_twilio :: "twilio_command list"
  sink :: "sink_call list"
  console :: "string list"

text \<open>
  The \<open>connection\<close> handler up to the registration of the event handlers.
  \<open>base\<close> is the server-wide speech configuration, \<open>startMs\<close> the clock at
  \<open>socket.callStartTime = new Date()\<close>, and \<open>created\<close> the id of the row
  \<open>createCallLog\<close> returned (\<open>None\<close> when it returned \<open>null\<close> or threw).
\<close>

definition on_connection ::
  "gemini_setup \<Rightarrow> string \<Rightarrow> session_stores \<Rightarrow> int \<Rightarrow> string option \<Rightarrow> relay_socket" where
  "on_connection base callSid st startMs created =
     (let found = (if callSid \<noteq> [] then lookup_session callSid st else None);
          chosen = (case found of None \<Rightarrow> None | Some cs \<Rightarrow> selectedAgent cs);
          logged = (case (found, chosen) of
                      (Some cs, Some agent) \<Rightarrow> True
                    | _ \<Rightarrow> False)
      in \<lparr> agentInfo = chosen,
           clientInfo = (case (found, chosen) of
                           (Some cs, Some agent) \<Rightarrow> Some (clientConfig cs)
                         | _ \<Rightarrow> None),
           socket_callSession = (case chosen of None \<Rightarrow> None | Some agent \<Rightarrow> found),
           geminiLive =
             (case chosen of
                None \<Rightarrow> base
              | Some agent \<Rightarrow>
                  \<lparr> setup_systemInstruction =
                      or_str (system_instruction agent) (setup_systemInstruction base),
                    setup_voiceName = or_str (voice_name agent) ''Puck'',
                    setup_languageCode = or_str (language_code agent) ''en-US'' \<rparr>),
           twilioStreamSid = Some callSid,
           callStartTime = startMs,
           transcript = [],
           lastUserSpeech = None,
           callLogId = (if logged then created else None),
           timers = [],
           to_gemini = [],
           to_twilio = [],
           sink = (case (found, chosen) of
                     (Some cs, Some agent) \<Rightarrow>
                        [CreateCallLog (clientId (clientConfig cs)) (a_id agent) callSid]
                   | _ \<Rightarrow> []),
           console =
             [''New WebSocket connection from Twilio'', ''Call SID from URL'']
               @ (if callSid \<noteq> [] then [''Call session retrieved''] else [])
               @ (case chosen of None \<Rightarrow> [] | Some agent \<Rightarrow> [''Using agent-specific configuration''])
               @ (if logged \<and> created \<noteq> None then [''Call log created with ID''] else [])
               @ [''New call from Twilio'', ''Call started at''] \<rparr>)"

record content_part =
  part_text :: "string option"
  inline_mimeType :: "string option"
  inline_data :: "string option"

datatype twilio_message =
    Connected
  | Start "string option"
  | Media "string option"
  | Stop
  | Other_event
  | Unparseable

text \<open>
  The events delivered to the handlers registered for one call.  A telephony message
  comes with \<open>Date.now()\<close>; the telephony close with the end time in milliseconds and
  as an ISO string; a timer with the speech client's \<open>readyState\<close> when it fires.
\<close>

datatype relay_event =
    TwilioMessage twilio_message int
  | TwilioClose int string
  | TwilioError
  | GeminiServerContent "content_part list option"
  | GeminiReady
  | GeminiError
  | GeminiClose
  | TimerFired nat

definition is_audio :: "content_part \<Rightarrow> bool" where
  "is_audio part =
     (case inline_mimeType part of
        None \<Rightarrow> False
      | Some mt \<Rightarrow> take 6 mt = ''audio/'' \<and> truthy_str (inline_data part))"

text \<open>
  \<open>handleGeminiResponse\<close>: every audio part is converted and sent to the telephony
  side; then every text part is logged.
\<close>

definition handleGeminiResponse :: "relay_socket \<Rightarrow> content_part list option \<Rightarrow> relay_socket" where
  "handleGeminiResponse sock parts =
     sock\<lparr> to_twilio := to_twilio sock @
              map (\<lambda>part. Media_out (twilioStreamSid sock) (PCM24kToMuLaw8k (the (inline_data part))))
                (filter is_audio (or_list parts [])),
           console := console sock
              @ concat (map (\<lambda>part. [''Received audio from Gemini'', ''Sent audio to Twilio, payload length''])
                          (filter is_audio (or_list parts [])))
              @ map (\<lambda>part. ''Gemini text response'')
                  (filter (\<lambda>part. truthy_str (part_text part)) (or_list parts [])) \<rparr>"

definition ai_lines :: "content_part list \<Rightarrow> string" where
  "ai_lines parts =
     concat (map (\<lambda>part. ''AI: '' @ the (part_text part) @ [CHR 10])
               (filter (\<lambda>part. truthy_str (part_text part)) parts))"

definition onServerContent :: "relay_socket \<Rightarrow> content_part list option \<Rightarrow> relay_socket" where
  "onServerContent sock parts =
     (let sock1 = handleGeminiResponse (sock\<lparr> console := console sock @ [''Received from Gemini''] \<rparr>) parts
      in sock1\<lparr> transcript := transcript sock1 @ ai_lines (or_list parts []) \<rparr>)"

definition handleTwilioMessage :: "relay_socket \<Rightarrow> twilio_message \<Rightarrow> relay_socket" where
  "handleTwilioMessage sock message =
     (case message of
        Connected \<Rightarrow> sock\<lparr> console := console sock @ [''Twilio connected''] \<rparr>
      | Start sid \<Rightarrow>
          sock\<lparr> twilioStreamSid := sid,
                console := console sock @ [''Call started'', ''Gemini Live client ready for audio''] \<rparr>
      | Media payload \<Rightarrow>
          (if truthy_str payload
           then sock\<lparr> to_gemini := to_gemini sock @ [SendRealtimeInput (MuLawToPCM16k (the payload))],
                      console := console sock @ [''Sending audio to Gemini''] \<rparr>
           else sock)
      | Stop \<Rightarrow> sock\<lparr> to_gemini := to_gemini sock @ [Gemini_close],
                      console := console sock @ [''Call stopped''] \<rparr>
      | Other_event \<Rightarrow> sock\<lparr> console := console sock @ [''Unknown Twilio event''] \<rparr>
      | Unparseable \<Rightarrow> sock)"

definition on_message :: "relay_socket \<Rightarrow> twilio_message \<Rightarrow> int \<Rightarrow> relay_socket" where
  "on_message sock message now =
     (case message of
        Unparseable \<Rightarrow> sock\<lparr> console := console sock @ [''Error parsing Twilio message''] \<rparr>
      | _ \<Rightarrow>
         (let sock1 = handleTwilioMessage sock message
          in case message of
               Media payload \<Rightarrow>
                 (if truthy_str payload \<and>
                     (case lastUserSpeech sock1 of
                        None \<Rightarrow> True
                      | Some t \<Rightarrow> t = 0 \<or> now - t > 5000)
                  then sock1\<lparr> transcript := transcript sock1 @ ''User: [Speech]'' @ [CHR 10],
                              lastUserSpeech := Some now \<rparr>
                  else sock1)
             | _ \<Rightarrow> sock1))"

text \<open>
  \<open>Math.round((endTime - startTime) / 1000)\<close> on whole milliseconds (halves round
  up) and \<open>Math.ceil(durationSeconds / 60)\<close>.  Both arguments are whole numbers far
  below \<open>2^53\<close>, where the floating-point quotient has the ceiling of the exact one.
\<close>

definition durationSeconds :: "int \<Rightarrow> int \<Rightarrow> int" where
  "durationSeconds startMs endMs = (endMs - startMs + 500) div 1000"

definition minutesUsed_of :: "int \<Rightarrow> int" where
  "minutesUsed_of d = \<lceil>(of_int d :: rat) / 60\<rceil>"

text \<open>The \<open>close\<close> handler of the telephony socket.\<close>

definition on_close :: "relay_socket \<Rightarrow> int \<Rightarrow> string \<Rightarrow> relay_socket" where
  "on_close sock endMs endIso =
     (let sock1 = sock\<lparr> console := console sock @ [''Twilio connection closed''] \<rparr>;
          sock2 =
            (if truthy_str (callLogId sock1) then
               (let d = durationSeconds (callStartTime sock1) endMs;
                    sock_a = sock1\<lparr> sink := sink sock1 @
                                 [UpdateCallLog (the (callLogId sock1)) ''completed'' endIso d
                                    (transcript sock1)],
                               console := console sock1 @ [''Call log updated with duration''] \<rparr>
                in case clientInfo sock_a of
                     None \<Rightarrow> sock_a
                   | Some info \<Rightarrow>
                       sock_a\<lparr> sink := sink sock_a @
                                 [IncrementMinutesUsed (clientId info) (minutesUsed_of d)],
                               console := console sock_a @ [''Minutes used incremented by''] \<rparr>)
             else sock1)
      in sock2\<lparr> to_gemini := to_gemini sock2 @ [Gemini_close],
                console := console sock2 @ [''Call ended'', ''Call ended at''] \<rparr>)"

text \<open>
  The three handlers installed on the call's speech client
  (\<open>geminiClient.onReady\<close>, \<open>onError\<close>, \<open>onClose\<close>): each writes one log line.
\<close>

definition geminiClient_onReady :: "relay_socket \<Rightarrow> relay_socket" where
  "geminiClient_onReady sock = sock\<lparr> console := console sock @ [''Gemini Live client connected and ready''] \<rparr>"

definition geminiClient_onError :: "relay_socket \<Rightarrow> relay_socket" where
  "geminiClient_onError sock = sock\<lparr> console := console sock @ [''Gemini Live client error''] \<rparr>"

definition geminiClient_onClose :: "relay_socket \<Rightarrow> relay_socket" where
  "geminiClient_onClose sock = sock\<lparr> console := console sock @ [''Gemini Live client closed''] \<rparr>"

text \<open>
  \<open>server.geminiLive.onReady\<close>, a property of the server-wide \<open>GeminiLiveEvents\<close>
  object: it arms a 500 ms timer whose callback sends the greeting directive when the
  speech client's \<open>readyState\<close> is 1.  No handler of the call invokes it.
\<close>

definition greeting_directive :: string where
  "greeting_directive =
     ''{client_content:{turns:[{role:user,parts:[{text:Please greet the caller now. Say hello and ask how you can help them today.}]}],turn_complete:true}}''"

definition server_geminiLive_onReady :: "relay_socket \<Rightarrow> relay_socket" where
  "server_geminiLive_onReady sock =
     sock\<lparr> timers := timers sock @ [500],
           console := console sock @ [''Gemini Live connection ready for call''] \<rparr>"

definition greeting_timer :: "relay_socket \<Rightarrow> nat \<Rightarrow> relay_socket" where
  "greeting_timer sock readyState =
     (if readyState = 1
      then sock\<lparr> to_gemini := to_gemini sock @ [Gemini_send greeting_directive],
                 console := console sock @ [''Sent initial greeting prompt to Gemini''] \<rparr>
      else sock)"

definition on_timer :: "relay_socket \<Rightarrow> nat \<Rightarrow> relay_socket" where
  "on_timer sock readyState =
     (case timers sock of
        [] \<Rightarrow> sock
      | t # ts \<Rightarrow> greeting_timer (sock\<lparr> timers := ts \<rparr>) readyState)"

definition relay_step :: "relay_socket \<Rightarrow> relay_event \<Rightarrow> relay_socket" where
  "relay_step sock ev =
     (case ev of
        TwilioMessage message now \<Rightarrow> on_message sock message now
      | TwilioClose endMs endIso \<Rightarrow> on_close sock endMs endIso
      | TwilioError \<Rightarrow> sock\<lparr> console := console sock @ [''Twilio WebSocket error'', ''Server error''] \<rparr>
      | GeminiServerContent parts \<Rightarrow> onServerContent sock parts
      | GeminiReady \<Rightarrow> geminiClient_onReady sock
      | GeminiError \<Rightarrow> geminiClient_onError sock
      | GeminiClose \<Rightarrow> geminiClient_onClose sock
      | TimerFired readyState \<Rightarrow> on_timer sock readyState)"

definition relay_run :: "relay_socket \<Rightarrow> relay_event list \<Rightarrow> relay_socket" where
  "relay_run sock evs = foldl relay_step sock evs"

fun is_finalize :: "sink_call \<Rightarrow> bool" where
  "is_finalize (UpdateCallLog i status ended d tr) = True"
| "is_finalize _ = False"

fun is_telephony_close :: "relay_event \<Rightarrow> bool" where
  "is_telephony_close (TwilioClose endMs endIso) = True"
| "is_telephony_close _ = False"

fun increments_of :: "sink_call list \<Rightarrow> (string \<times> int) list" where
  "increments_of [] = []"
| "increments_of (IncrementMinutesUsed cid m # rest) = (cid, m) # increments_of rest"
| "increments_of (_ # rest) = increments_of rest"


section \<open>A predicate on session updates\<close>

text \<open>
  An update from the session \<open>cs\<close> a handler found to the session \<open>s'\<close> it writes
  either leaves the selected agent as it was, or selects an agent and leaves no
  \<open>ivrContext\<close> behind.
\<close>

definition agent_kept_or_ivr_cleared :: "call_session \<Rightarrow> call_session \<Rightarrow> bool" where
  "agent_kept_or_ivr_cleared cs s' =
     (selectedAgent s' = selectedAgent cs \<or> (selectedAgent s' \<noteq> None \<and> ivrContext s' = None))"


section \<open>An example tenant\<close>

definition ex_agent1 :: agent_row where
  "ex_agent1 = \<lparr> a_id = ''A1'', a_profile_id = Some ''P1'', a_name = ''Front desk'',
     agent_type = ''general'', voice_name = None, language_code = None,
     system_instruction = None, greeting = Some ''Welcome'', a_is_active = Some True,
     business_hours_start = Some ''09:00'', business_hours_end = Some ''17:00'',
     business_days = Some [1, 2, 3, 4, 5] \<rparr>"

definition ex_agent2 :: agent_row where
  "ex_agent2 = \<lparr> a_id = ''A2'', a_profile_id = Some ''P1'', a_name = ''Night desk'',
     agent_type = ''after_hours'', voice_name = None, language_code = None,
     system_instruction = None, greeting = None, a_is_active = Some True,
     business_hours_start = None, business_hours_end = None,
     business_days = None \<rparr>"

definition ex_profile :: profile_row where
  "ex_profile = \<lparr> p_id = ''P1'', client_name = Some ''Acme'', full_name = None,
     routing_strategy = Some ''single_number_ivr'', call_recording_enabled = Some False,
     transcription_enabled = Some False, max_concurrent_calls = None,
     monthly_minute_limit = None, minutes_used = None \<rparr>"

definition ex_phone :: phone_row where
  "ex_phone = \<lparr> phone_number = ''+15550001'', pn_profile_id = Some ''P1'',
     agent_id = Some ''A1'', is_primary = Some True \<rparr>"

definition ex_option2 :: ivr_option_row where
  "ex_option2 = \<lparr> o_id = ''O2'', digit = ''2'', o_agent_id = Some ''A2'',
     action_type = Some ''agent'', action_phone_number = None \<rparr>"

definition ex_menu :: ivr_menu_row where
  "ex_menu = \<lparr> m_id = ''M1'', m_profile_id = Some ''P1'', m_name = ''Main'',
     greeting_text = ''Press 2 for the night desk.'', timeout_seconds = None,
     max_attempts = Some 3, m_is_active = Some True, ivr_options = [ex_option2] \<rparr>"

definition ex_tables :: config_tables where
  "ex_tables = \<lparr> db_available = True, profiles = [ex_profile], phone_numbers = [ex_phone],
     ai_agents = [ex_agent1, ex_agent2], ivr_menus = [ex_menu], external_integrations = [] \<rparr>"

definition ex_config :: client_config where
  "ex_config = compile_config ex_profile ex_phone [ex_phone] [ex_agent1, ex_agent2] (Some ex_menu) []"

definition ex_req :: webhook_request where
  "ex_req = \<lparr> body_To = ''+15550001'', body_From = ''+15559999'', body_CallSid = ''CA1'',
     body_Digits = None, query_callSid = None, query_extension = None,
     at_iso = ''2024-01-01T14:00:00.000Z'', local_weekday = 1, local_hour = 9, local_minute = 0 \<rparr>"

definition ex_stores :: session_stores where
  "ex_stores = \<lparr> sessions_available = True, call_sessions = Map.empty, callSessionStore = Map.empty \<rparr>"

text \<open>The same tenant with no agent bound to its number.\<close>

definition ex_unbound_phone :: phone_row where
  "ex_unbound_phone = ex_phone\<lparr> agent_id := None \<rparr>"

definition ex_ivr_tables :: config_tables where
  "ex_ivr_tables = ex_tables\<lparr> phone_numbers := [ex_unbound_phone] \<rparr>"

definition ex_ivr_config :: client_config where
  "ex_ivr_config =
     compile_config ex_profile ex_unbound_phone [ex_unbound_phone] [ex_agent1, ex_agent2]
       (Some ex_menu) []"

definition ex_ivr_session :: "client_config \<Rightarrow> int \<Rightarrow> call_session" where
  "ex_ivr_session cfg k =
     \<lparr> clientConfig = cfg, selectedAgent = None,
       ivrContext = Some \<lparr> menuId = Some ''M1'', attempts = Some k \<rparr>,
       callType = ''inbound'', fromNumber = ''+15559999'', toNumber = ''+15550001'',
       startTime = ''2024-01-01T14:00:00.000Z'' \<rparr>"

definition ex_memory_only :: "call_session \<Rightarrow> session_stores" where
  "ex_memory_only s =
     \<lparr> sessions_available = False, call_sessions = Map.empty,
       callSessionStore = [''CA1'' \<mapsto> s] \<rparr>"

definition ex_digit9 :: webhook_request where
  "ex_digit9 = ex_req\<lparr> body_Digits := Some ''9'', query_callSid := Some ''CA1'' \<rparr>"

definition ex_digit2 :: webhook_request where
  "ex_digit2 = ex_req\<lparr> body_Digits := Some ''2'', query_callSid := Some ''CA1'' \<rparr>"

text \<open>The request of the redirect that follows a menu left unanswered.\<close>

definition ex_no_digit :: webhook_request where
  "ex_no_digit = ex_req\<lparr> query_callSid := Some ''CA1'' \<rparr>"

definition ex_base :: gemini_setup where
  "ex_base = \<lparr> setup_systemInstruction = ''You are a professional AI assistant.'',
     setup_voiceName = ''Puck'', setup_languageCode = ''en-US'' \<rparr>"

definition ex_selected :: call_session where
  "ex_selected = agent_session ex_config ex_agent1 ex_req"

definition ex_socket :: relay_socket where
  "ex_socket = on_connection ex_base ''CA1'' (ex_memory_only ex_selected) 0 (Some ''L1'')"

text \<open>The same call when \<open>createCallLog\<close> returned no row.\<close>

definition ex_unlogged :: relay_socket where
  "ex_unlogged = on_connection ex_base ''CA1'' (ex_memory_only ex_selected) 0 None"

definition ex_row_and_memory :: "call_session \<Rightarrow> call_session \<Rightarrow> session_stores" where
  "ex_row_and_memory row s =
     \<lparr> sessions_available = True, call_sessions = [''CA1'' \<mapsto> row],
       callSessionStore = [''CA1'' \<mapsto> s] \<rparr>"

text \<open>The responses to a sequence of digit submissions, each served on the stores the last one left.\<close>

fun ivr_run :: "webhook_request list \<Rightarrow> session_stores \<Rightarrow> (js_error + twiml) list" where
  "ivr_run [] st = []"
| "ivr_run (r # rs) st =
     (case ivr_selection r st of
        Inl e \<Rightarrow> [Inl e]
      | Inr (tw, st') \<Rightarrow> Inr tw # ivr_run rs st')"


section \<open>Auxiliary facts\<close>

lemma js_find_Some_mem: "js_find P xs = Some x \<Longrightarrow> x \<in> set xs \<and> P x"
  by (auto simp: js_find_def find_Some_iff)

lemma js_find_exists: "\<exists>x \<in> set xs. P x \<Longrightarrow> \<exists>y. js_find P xs = Some y"
  by (cases "List.find P xs") (auto simp: js_find_def find_None_iff)

lemma save_session_mem:
  "callSessionStore (save_session sid s st) sid = Some s"
  by (simp add: save_session_def Let_def)

lemma save_session_db:
  "call_sessions (save_session sid s st) sid =
     (if sessions_available st \<and> call_sessions st sid = None then Some s else call_sessions st sid)"
  by (simp add: save_session_def storeCallSession_def Let_def)

lemma save_session_available:
  "sessions_available (save_session sid s st) = sessions_available st"
  by (simp add: save_session_def storeCallSession_def Let_def)

lemma route_voice_direct:
  assumes t: "truthy_str (agent_id (phoneNumber cfg))"
      and f: "js_find (\<lambda>a. Some (a_id a) = agent_id (phoneNumber cfg)) (agents cfg) = Some a"
  shows "route_voice req cfg st =
      Inr ((if recordingEnabled cfg then [Record_verb ''/webhook/recording'' 14400] else [])
             @ connect_twiml (body_CallSid req) a,
           save_session (body_CallSid req) (agent_session cfg a req) st)"
  by (simp only: route_voice_def t f if_True option.case)

lemma selectedAgent_agent_session: "selectedAgent (agent_session cfg a req) = Some a"
  by (simp add: agent_session_def)

lemma ivrContext_agent_session: "ivrContext (agent_session cfg a req) = None"
  by (simp add: agent_session_def)


subsection \<open>The example tenant, evaluated\<close>

lemma ex_query:
  "query_config ex_tables ''+15550001'' =
     (Some ex_config,
      [''phone_numbers'', ''phone_numbers'', ''ai_agents'', ''ivr_menus'', ''external_integrations''])"
  by (simp add: query_config_def ex_tables_def ex_phone_def ex_profile_def single_def js_find_def
      ex_agent1_def ex_agent2_def ex_menu_def ex_config_def Let_def)

lemma ex_resolve:
  "getClientConfigByPhoneNumber ex_tables 1000 Map.empty (body_To ex_req) =
     (Some ex_config, [''+15550001'' \<mapsto> \<lparr> data = ex_config, expiresAt = 301000 \<rparr>],
      [''phone_numbers'', ''phone_numbers'', ''ai_agents'', ''ivr_menus'', ''external_integrations''])"
  by (simp add: getClientConfigByPhoneNumber_def ex_query CACHE_TTL_def ex_req_def)

lemma ex_config_fields:
  "agents ex_config = [ex_agent1, ex_agent2]"
  "phoneNumber ex_config = ex_phone"
  "routingStrategy ex_config = ''single_number_ivr''"
  "recordingEnabled ex_config = True"
  "transcriptionEnabled ex_config = True"
  "clientId ex_config = ''P1''"
  "ivrMenu ex_config = Some ex_menu"
  by (simp_all add: ex_config_def compile_config_def or_bool_def or_str_def ex_profile_def)

lemma ex_ivr_config_fields:
  "agents ex_ivr_config = [ex_agent1, ex_agent2]"
  "ivrMenu ex_ivr_config = Some ex_menu"
  "ivrMenu (ex_ivr_config\<lparr> agents := ags \<rparr>) = Some ex_menu"
  "agents (ex_ivr_config\<lparr> agents := ags \<rparr>) = ags"
  "ivrMenu (ex_ivr_config\<lparr> ivrMenu := m \<rparr>) = m"
  "agents (ex_ivr_config\<lparr> ivrMenu := m \<rparr>) = [ex_agent1, ex_agent2]"
  by (simp_all add: ex_ivr_config_def compile_config_def)

lemma ex_session_fields:
  "clientConfig (ex_ivr_session cfg k) = cfg"
  "ivrContext (ex_ivr_session cfg k) = Some \<lparr> menuId = Some ''M1'', attempts = Some k \<rparr>"
  "selectedAgent (ex_ivr_session cfg k) = None"
  by (simp_all add: ex_ivr_session_def)

lemma ex_sid9: "or_str (query_callSid ex_digit9) (body_CallSid ex_digit9) = ''CA1''"
  by (simp add: ex_digit9_def ex_req_def or_str_def)

lemma ex_sid2: "or_str (query_callSid ex_digit2) (body_CallSid ex_digit2) = ''CA1''"
  by (simp add: ex_digit2_def ex_req_def or_str_def)

lemma ex_lookup: "lookup_session ''CA1'' (ex_memory_only s) = Some s"
  by (simp add: lookup_session_def getCallSession_def ex_memory_only_def)

lemma ex_nomatch9:
  "js_find (\<lambda>opt. Some (digit opt) = body_Digits ex_digit9) (ivr_options ex_menu) = None"
  "js_find (\<lambda>opt. Some (digit opt) = body_Digits ex_digit9) (ivr_options (ex_menu\<lparr> max_attempts := m \<rparr>)) = None"
  by (simp_all add: js_find_def ex_menu_def ex_option2_def ex_digit9_def ex_req_def)

lemma ex_match2:
  "js_find (\<lambda>opt. Some (digit opt) = body_Digits ex_digit2) (ivr_options ex_menu) = Some ex_option2"
  by (simp add: js_find_def ex_menu_def ex_option2_def ex_digit2_def ex_req_def)

lemma ex_find_A2:
  "js_find (\<lambda>a. Some (a_id a) = o_agent_id ex_option2) [ex_agent1, ex_agent2] = Some ex_agent2"
  by (simp add: js_find_def ex_option2_def ex_agent1_def ex_agent2_def)

lemma ex_menu_fields:
  "max_attempts ex_menu = Some 3"
  "timeout_seconds ex_menu = None"
  "greeting_text ex_menu = ''Press 2 for the night desk.''"
  "max_attempts (ex_menu\<lparr> max_attempts := m \<rparr>) = m"
  "timeout_seconds (ex_menu\<lparr> max_attempts := m \<rparr>) = None"
  "greeting_text (ex_menu\<lparr> max_attempts := m \<rparr>) = ''Press 2 for the night desk.''"
  by (simp_all add: ex_menu_def)

lemma ex_selected_fields:
  "selectedAgent ex_selected = Some ex_agent1"
  "clientConfig ex_selected = ex_config"
  by (simp_all add: ex_selected_def agent_session_def)


section \<open>Direct number binding\<close>

text \<open>
  Claim C1.  When the resolver returns a configuration whose dialed number carries an
  agent binding (a non-empty \<open>agent_id\<close>) and an agent with that id is among the
  tenant's agents, the voice webhook answers with the connect response for that agent:
  the recording verb when recording is enabled, then the stream to the relay under the
  call's id, the agent's greeting (or the stock greeting) said in the agent's language
  (or \<open>en-US\<close>), and the pause of 60 seconds.  It stores the session of an inbound call
  whose \<open>selectedAgent\<close> is that agent: the in-process store holds it, and so does the
  database table when it is reachable and has no row for the call yet.  The
  configuration is arbitrary, so this holds for every value of \<open>routingStrategy\<close>;
  neither the response nor the session depends on it.
\<close>

theorem direct_binding_wins:
  assumes res: "getClientConfigByPhoneNumber db now cache (body_To req) = (Some cfg, cache', qs)"
      and bound: "agent_id (phoneNumber cfg) = Some aid" "aid \<noteq> []"
      and ex: "\<exists>a \<in> set (agents cfg). a_id a = aid"
  shows "\<exists>a st'. a \<in> set (agents cfg) \<and> a_id a = aid
           \<and> fst (voice_webhook db now req cache st) =
                Inr ((if recordingEnabled cfg then [Record_verb ''/webhook/recording'' 14400] else [])
                       @ [Start_Stream
                            (''wss://work-2-uqgmjligulgfvwib.prod-runtime.all-hands.dev?callSid=''
                               @ body_CallSid req)
                            ''both_tracks'',
                          SayVoice ''alice''
                            (case language_code a of
                               None \<Rightarrow> ''en-US''
                             | Some l \<Rightarrow> if l = [] then ''en-US'' else l)
                            (case greeting a of
                               None \<Rightarrow> ''Hello! I am your AI assistant. How can I help you today?''
                             | Some g \<Rightarrow>
                                 if g = [] then ''Hello! I am your AI assistant. How can I help you today?''
                                 else g),
                          Pause 60],
                     st')
           \<and> callSessionStore st' (body_CallSid req) =
                Some \<lparr> clientConfig = cfg, selectedAgent = Some a, ivrContext = None,
                       callType = ''inbound'', fromNumber = body_From req, toNumber = body_To req,
                       startTime = at_iso req \<rparr>
           \<and> (sessions_available st \<and> call_sessions st (body_CallSid req) = None \<longrightarrow>
                call_sessions st' (body_CallSid req) =
                  Some \<lparr> clientConfig = cfg, selectedAgent = Some a, ivrContext = None,
                         callType = ''inbound'', fromNumber = body_From req, toNumber = body_To req,
                         startTime = at_iso req \<rparr>)"
proof -
  from ex bound have "\<exists>a \<in> set (agents cfg). Some (a_id a) = agent_id (phoneNumber cfg)"
    by auto
  then have "\<exists>y. js_find (\<lambda>a. Some (a_id a) = agent_id (phoneNumber cfg)) (agents cfg) = Some y"
    by (rule js_find_exists)
  then obtain a where f: "js_find (\<lambda>a. Some (a_id a) = agent_id (phoneNumber cfg)) (agents cfg) = Some a"
    by (rule exE)
  from js_find_Some_mem[OF f] bound have mem: "a \<in> set (agents cfg)" "a_id a = aid" by auto
  have t: "truthy_str (agent_id (phoneNumber cfg))" using bound by (simp add: truthy_str_def)
  have v: "fst (voice_webhook db now req cache st) = route_voice req cfg st"
    by (simp add: voice_webhook_def res)
  let ?st' = "save_session (body_CallSid req) (agent_session cfg a req) st"
  have tw: "connect_twiml (body_CallSid req) a =
      [Start_Stream
         (''wss://work-2-uqgmjligulgfvwib.prod-runtime.all-hands.dev?callSid='' @ body_CallSid req)
         ''both_tracks'',
       SayVoice ''alice''
         (case language_code a of
            None \<Rightarrow> ''en-US''
          | Some l \<Rightarrow> if l = [] then ''en-US'' else l)
         (case greeting a of
            None \<Rightarrow> ''Hello! I am your AI assistant. How can I help you today?''
          | Some g \<Rightarrow>
              if g = [] then ''Hello! I am your AI assistant. How can I help you today?''
              else g),
       Pause 60]"
    by (simp add: connect_twiml_def stream_verb_def WEBSOCKET_URL_def default_greeting_def or_str_def)
  have c1: "fst (voice_webhook db now req cache st) =
                Inr ((if recordingEnabled cfg then [Record_verb ''/webhook/recording'' 14400] else [])
                       @ connect_twiml (body_CallSid req) a, ?st')"
    by (simp only: v route_voice_direct[OF t f])
  have c2: "callSessionStore ?st' (body_CallSid req) = Some (agent_session cfg a req)"
    by (rule save_session_mem)
  have c3: "sessions_available st \<and> call_sessions st (body_CallSid req) = None \<longrightarrow>
                call_sessions ?st' (body_CallSid req) = Some (agent_session cfg a req)"
    by (simp only: save_session_db) simp
  have rec: "\<lparr> clientConfig = cfg, selectedAgent = Some a, ivrContext = None,
                callType = ''inbound'', fromNumber = body_From req, toNumber = body_To req,
                startTime = at_iso req \<rparr> = agent_session cfg a req"
    by (simp add: agent_session_def)
  have c2': "callSessionStore ?st' (body_CallSid req) =
                Some \<lparr> clientConfig = cfg, selectedAgent = Some a, ivrContext = None,
                       callType = ''inbound'', fromNumber = body_From req, toNumber = body_To req,
                       startTime = at_iso req \<rparr>"
    unfolding rec by (rule c2)
  have c3': "sessions_available st \<and> call_sessions st (body_CallSid req) = None \<longrightarrow>
                call_sessions ?st' (body_CallSid req) =
                  Some \<lparr> clientConfig = cfg, selectedAgent = Some a, ivrContext = None,
                         callType = ''inbound'', fromNumber = body_From req, toNumber = body_To req,
                         startTime = at_iso req \<rparr>"
    unfolding rec by (rule c3)
  show ?thesis
    by (intro exI[of _ a] exI[of _ ?st'] conjI mem c1[unfolded tw] c2' c3')
qed

text \<open>
  The example tenant routes by IVR menu, and its number \<open>+15550001\<close> is bound to agent
  \<open>A1\<close>, whose greeting is \<open>Welcome\<close> and whose language is unset: the call is
  connected to \<open>A1\<close>, and both stores hold the session with \<open>A1\<close> selected.
\<close>

theorem direct_binding_wins_witness:
  "routingStrategy ex_config = ''single_number_ivr''
   \<and> (\<exists>st'. fst (voice_webhook ex_tables 1000 ex_req Map.empty ex_stores) =
              Inr ([Record_verb ''/webhook/recording'' 14400,
                    Start_Stream
                      ''wss://work-2-uqgmjligulgfvwib.prod-runtime.all-hands.dev?callSid=CA1''
                      ''both_tracks'',
                    SayVoice ''alice'' ''en-US'' ''Welcome'',
                    Pause 60], st')
            \<and> callSessionStore st' ''CA1'' =
                Some \<lparr> clientConfig = ex_config, selectedAgent = Some ex_agent1, ivrContext = None,
                       callType = ''inbound'', fromNumber = ''+15559999'', toNumber = ''+15550001'',
                       startTime = ''2024-01-01T14:00:00.000Z'' \<rparr>
            \<and> call_sessions st' ''CA1'' =
                Some \<lparr> clientConfig = ex_config, selectedAgent = Some ex_agent1, ivrContext = None,
                       callType = ''inbound'', fromNumber = ''+15559999'', toNumber = ''+15550001'',
                       startTime = ''2024-01-01T14:00:00.000Z'' \<rparr>)"
proof -
  have b: "agent_id (phoneNumber ex_config) = Some ''A1''" "''A1'' \<noteq> []"
    by (simp_all add: ex_config_fields ex_phone_def)
  have e: "\<exists>a \<in> set (agents ex_config). a_id a = ''A1''"
    by (simp add: ex_config_fields ex_agent1_def)
  from direct_binding_wins[OF ex_resolve b e, of ex_stores]
  obtain a st' where a: "a \<in> set (agents ex_config)" "a_id a = ''A1''"
    and r: "fst (voice_webhook ex_tables 1000 ex_req Map.empty ex_stores) =
                Inr ((if recordingEnabled ex_config then [Record_verb ''/webhook/recording'' 14400] else [])
                       @ [Start_Stream
                            (''wss://work-2-uqgmjligulgfvwib.prod-runtime.all-hands.dev?callSid=''
                               @ body_CallSid ex_req)
                            ''both_tracks'',
                          SayVoice ''alice''
                            (case language_code a of
                               None \<Rightarrow> ''en-US''
                             | Some l \<Rightarrow> if l = [] then ''en-US'' else l)
                            (case greeting a of
                               None \<Rightarrow> ''Hello! I am your AI assistant. How can I help you today?''
                             | Some g \<Rightarrow>
                                 if g = [] then ''Hello! I am your AI assistant. How can I help you today?''
                                 else g),
                          Pause 60],
                     st')"
    and m: "callSessionStore st' (body_CallSid ex_req) =
                Some \<lparr> clientConfig = ex_config, selectedAgent = Some a, ivrContext = None,
                       callType = ''inbound'', fromNumber = body_From ex_req, toNumber = body_To ex_req,
                       startTime = at_iso ex_req \<rparr>"
    and d: "sessions_available ex_stores \<and> call_sessions ex_stores (body_CallSid ex_req) = None \<longrightarrow>
                call_sessions st' (body_CallSid ex_req) =
                  Some \<lparr> clientConfig = ex_config, selectedAgent = Some a, ivrContext = None,
                         callType = ''inbound'', fromNumber = body_From ex_req, toNumber = body_To ex_req,
                         startTime = at_iso ex_req \<rparr>"
    by blast
  from a have a1: "a = ex_agent1"
    by (auto simp: ex_config_fields ex_agent1_def ex_agent2_def)
  have rq: "body_CallSid ex_req = ''CA1''" "body_From ex_req = ''+15559999''"
    "body_To ex_req = ''+15550001''" "at_iso ex_req = ''2024-01-01T14:00:00.000Z''"
    by (simp_all add: ex_req_def)
  have ag: "language_code ex_agent1 = None" "greeting ex_agent1 = Some ''Welcome''"
    by (simp_all add: ex_agent1_def)
  have av: "sessions_available ex_stores \<and> call_sessions ex_stores ''CA1'' = None"
    by (simp add: ex_stores_def)
  from r m d av show ?thesis
    unfolding a1 rq ag by (simp add: ex_config_fields)
qed


section \<open>IVR digit submission\<close>

lemma ivr_selection_no_match:
  assumes found: "lookup_session (or_str (query_callSid req) (body_CallSid req)) st = Some cs"
      and menu: "ivrMenu (clientConfig cs) = Some menu"
      and nomatch: "js_find (\<lambda>opt. Some (digit opt) = body_Digits req) (ivr_options menu) = None"
  shows "ivr_selection req st =
     (let callSid = or_str (query_callSid req) (body_CallSid req);
          ctx = (case ivrContext cs of None \<Rightarrow> \<lparr> menuId = None, attempts = None \<rparr> | Some c \<Rightarrow> c);
          n = or_int (attempts ctx) 0 + 1
      in if n \<ge> or_int (max_attempts menu) 3 then
           (case first_elem (agents (clientConfig cs)) of
              None \<Rightarrow> Inr ([Say ''Sorry, no agents are available. Please try again later.''], st)
            | Some defaultAgent \<Rightarrow>
                Inr ([stream_verb callSid, Say ''I'll connect you with our general assistant.'', Pause 60],
                     save_session callSid (cs\<lparr> selectedAgent := Some defaultAgent, ivrContext := None \<rparr>) st))
         else
           Inr ([Gather 1 (''/webhook/ivr-selection?callSid='' @ callSid)
                   (or_int (timeout_seconds menu) 10)
                   (''Sorry, that's not a valid option. '' @ greeting_text menu),
                 Redirect (''/webhook/ivr-timeout?callSid='' @ callSid)],
                save_session callSid (cs\<lparr> ivrContext := Some (ctx\<lparr> attempts := Some n \<rparr>) \<rparr>) st))"
  unfolding ivr_selection_def Let_def
  by (simp only: found menu nomatch option.case)

text \<open>
  One submission, taken alone.  A digit submission finds a session \<open>cs\<close> with an
  \<open>ivrContext\<close>, and the digit matches no option of the tenant's menu.  Let \<open>n\<close> be
  the attempt count found (0 when absent) plus one, and \<open>limit\<close> the menu's
  \<open>max_attempts\<close>, or 3 when that is unset or 0.  If \<open>n \<ge> limit\<close> and the tenant has
  an agent, the response connects the call and the session handed to the stores has the
  first agent selected and no \<open>ivrContext\<close>; if \<open>n \<ge> limit\<close> and the tenant has no
  agent, the caller is told that no agents are available and nothing is written.  If
  \<open>n < limit\<close>, the menu is issued again behind the invalid-selection sentence and the
  session handed to the stores carries \<open>attempts = n\<close>.  The in-process store holds
  that session afterwards.
\<close>

lemma ivr_invalid_digit_step:
  assumes sid: "sid = or_str (query_callSid req) (body_CallSid req)"
      and found: "lookup_session sid st = Some cs"
      and menu: "ivrMenu (clientConfig cs) = Some menu"
      and nomatch: "js_find (\<lambda>opt. Some (digit opt) = body_Digits req) (ivr_options menu) = None"
      and ctx: "ivrContext cs = Some ctx"
      and n: "n = or_int (attempts ctx) 0 + 1"
      and limit: "limit = or_int (max_attempts menu) 3"
  shows "(n \<ge> limit \<longrightarrow>
           (case agents (clientConfig cs) of
              [] \<Rightarrow> ivr_selection req st =
                     Inr ([Say ''Sorry, no agents are available. Please try again later.''], st)
            | a # rest \<Rightarrow>
                ivr_selection req st =
                  Inr ([stream_verb sid, Say ''I'll connect you with our general assistant.'', Pause 60],
                       save_session sid (cs\<lparr> selectedAgent := Some a, ivrContext := None \<rparr>) st)
                \<and> callSessionStore (save_session sid (cs\<lparr> selectedAgent := Some a, ivrContext := None \<rparr>) st) sid
                    = Some (cs\<lparr> selectedAgent := Some a, ivrContext := None \<rparr>)))
       \<and> (n < limit \<longrightarrow>
             ivr_selection req st =
               Inr ([Gather 1 (''/webhook/ivr-selection?callSid='' @ sid)
                       (or_int (timeout_seconds menu) 10)
                       (''Sorry, that's not a valid option. '' @ greeting_text menu),
                     Redirect (''/webhook/ivr-timeout?callSid='' @ sid)],
                    save_session sid (cs\<lparr> ivrContext := Some (ctx\<lparr> attempts := Some n \<rparr>) \<rparr>) st)
             \<and> callSessionStore (save_session sid (cs\<lparr> ivrContext := Some (ctx\<lparr> attempts := Some n \<rparr>) \<rparr>) st) sid
                 = Some (cs\<lparr> ivrContext := Some (ctx\<lparr> attempts := Some n \<rparr>) \<rparr>))"
proof -
  note sel = ivr_selection_no_match[OF found[unfolded sid] menu nomatch, folded sid,
      unfolded Let_def ctx option.case, folded n limit]
  show ?thesis
  proof (intro conjI impI)
    assume ge: "limit \<le> n"
    show "case agents (clientConfig cs) of
              [] \<Rightarrow> ivr_selection req st =
                     Inr ([Say ''Sorry, no agents are available. Please try again later.''], st)
            | a # rest \<Rightarrow>
                ivr_selection req st =
                  Inr ([stream_verb sid, Say ''I'll connect you with our general assistant.'', Pause 60],
                       save_session sid (cs\<lparr> selectedAgent := Some a, ivrContext := None \<rparr>) st)
                \<and> callSessionStore (save_session sid (cs\<lparr> selectedAgent := Some a, ivrContext := None \<rparr>) st) sid
                    = Some (cs\<lparr> selectedAgent := Some a, ivrContext := None \<rparr>)"
    proof (cases "agents (clientConfig cs)")
      case Nil
      then show ?thesis using sel ge by (simp only: first_elem_def list.case if_True option.case)
    next
      case (Cons a rest)
      then show ?thesis using sel ge
        by (simp only: first_elem_def list.case if_True option.case save_session_mem simp_thms)
    qed
  next
    assume lt: "n < limit"
    then have nge: "\<not> limit \<le> n" by simp
    show "ivr_selection req st =
               Inr ([Gather 1 (''/webhook/ivr-selection?callSid='' @ sid)
                       (or_int (timeout_seconds menu) 10)
                       (''Sorry, that's not a valid option. '' @ greeting_text menu),
                     Redirect (''/webhook/ivr-timeout?callSid='' @ sid)],
                    save_session sid (cs\<lparr> ivrContext := Some (ctx\<lparr> attempts := Some n \<rparr>) \<rparr>) st)"
      using sel nge by (simp only: if_False)
  next
    show "callSessionStore (save_session sid (cs\<lparr> ivrContext := Some (ctx\<lparr> attempts := Some n \<rparr>) \<rparr>) st) sid
                 = Some (cs\<lparr> ivrContext := Some (ctx\<lparr> attempts := Some n \<rparr>) \<rparr>)"
      by (rule save_session_mem)
  qed
qed

text \<open>
  A menu with \<open>max_attempts = 0\<close> has its limit read as 3, so the first invalid digit
  is answered with the menu.  A tenant without agents has no first agent to fall back
  to: at the limit the caller hears the no-agents message and the stores stay as they
  were.
\<close>

lemma ivr_limit_zero_and_no_agent_examples:
  "ivr_selection ex_digit9
      (ex_memory_only (ex_ivr_session (ex_ivr_config\<lparr> ivrMenu := Some (ex_menu\<lparr> max_attempts := Some 0 \<rparr>) \<rparr>) 0))
     = Inr ([Gather 1 ''/webhook/ivr-selection?callSid=CA1'' 10
               (''Sorry, that's not a valid option. '' @ ''Press 2 for the night desk.''),
             Redirect ''/webhook/ivr-timeout?callSid=CA1''],
            save_session ''CA1''
              ((ex_ivr_session (ex_ivr_config\<lparr> ivrMenu := Some (ex_menu\<lparr> max_attempts := Some 0 \<rparr>) \<rparr>) 0)
                 \<lparr> ivrContext := Some \<lparr> menuId = Some ''M1'', attempts = Some 1 \<rparr> \<rparr>)
              (ex_memory_only (ex_ivr_session (ex_ivr_config\<lparr> ivrMenu := Some (ex_menu\<lparr> max_attempts := Some 0 \<rparr>) \<rparr>) 0)))
   \<and> max_attempts ex_menu = Some 3
   \<and> ivr_selection ex_digit9 (ex_memory_only (ex_ivr_session (ex_ivr_config\<lparr> agents := [] \<rparr>) 2))
      = Inr ([Say ''Sorry, no agents are available. Please try again later.''],
             ex_memory_only (ex_ivr_session (ex_ivr_config\<lparr> agents := [] \<rparr>) 2))"
proof -
  have a: "ivr_selection ex_digit9
      (ex_memory_only (ex_ivr_session (ex_ivr_config\<lparr> ivrMenu := Some (ex_menu\<lparr> max_attempts := Some 0 \<rparr>) \<rparr>) 0))
     = Inr ([Gather 1 ''/webhook/ivr-selection?callSid=CA1'' 10
               (''Sorry, that's not a valid option. '' @ ''Press 2 for the night desk.''),
             Redirect ''/webhook/ivr-timeout?callSid=CA1''],
            save_session ''CA1''
              ((ex_ivr_session (ex_ivr_config\<lparr> ivrMenu := Some (ex_menu\<lparr> max_attempts := Some 0 \<rparr>) \<rparr>) 0)
                 \<lparr> ivrContext := Some \<lparr> menuId = Some ''M1'', attempts = Some 1 \<rparr> \<rparr>)
              (ex_memory_only (ex_ivr_session (ex_ivr_config\<lparr> ivrMenu := Some (ex_menu\<lparr> max_attempts := Some 0 \<rparr>) \<rparr>) 0)))"
    unfolding ivr_selection_def Let_def ex_sid9 ex_lookup option.case ex_session_fields
      ex_ivr_config_fields ex_nomatch9
    by (simp add: ex_menu_fields or_int_def)
  have b: "ivr_selection ex_digit9 (ex_memory_only (ex_ivr_session (ex_ivr_config\<lparr> agents := [] \<rparr>) 2))
      = Inr ([Say ''Sorry, no agents are available. Please try again later.''],
             ex_memory_only (ex_ivr_session (ex_ivr_config\<lparr> agents := [] \<rparr>) 2))"
    unfolding ivr_selection_def Let_def ex_sid9 ex_lookup option.case ex_session_fields
      ex_ivr_config_fields ex_nomatch9
    by (simp add: ex_menu_fields or_int_def first_elem_def)
  from a ex_menu_fields(1) b show ?thesis by (intro conjI)
qed

text \<open>
  A row of \<open>call_sessions\<close> is never replaced, and lookups read the table first.  While
  the database is reachable, a session saved for a call that already has a row is not the
  one the next lookup finds.
\<close>

lemma existing_row_shadows_save:
  assumes "sessions_available st" "call_sessions st sid = Some cs"
  shows "lookup_session sid (save_session sid s' st) = Some cs"
  using assms
  by (simp add: lookup_session_def getCallSession_def save_session_db save_session_available)

lemma ex_retry_memory_only:
  assumes "k = 0 \<or> k = 1"
  shows "ivr_selection ex_digit9 (ex_memory_only (ex_ivr_session ex_ivr_config k)) =
     Inr ([Gather 1 ''/webhook/ivr-selection?callSid=CA1'' 10
             (''Sorry, that's not a valid option. '' @ ''Press 2 for the night desk.''),
           Redirect ''/webhook/ivr-timeout?callSid=CA1''],
          ex_memory_only (ex_ivr_session ex_ivr_config (k + 1)))"
proof -
  have w: "(ex_ivr_session ex_ivr_config k)\<lparr> ivrContext := Some \<lparr> menuId = Some ''M1'', attempts = Some (k + 1) \<rparr> \<rparr>
      = ex_ivr_session ex_ivr_config (k + 1)"
    by (simp add: ex_ivr_session_def)
  have s: "save_session ''CA1'' (ex_ivr_session ex_ivr_config (k + 1)) (ex_memory_only (ex_ivr_session ex_ivr_config k))
      = ex_memory_only (ex_ivr_session ex_ivr_config (k + 1))"
    by (simp add: save_session_def storeCallSession_def ex_memory_only_def Let_def)
  show ?thesis
    unfolding ivr_selection_def Let_def ex_sid9 ex_lookup option.case ex_session_fields
      ex_ivr_config_fields ex_nomatch9
    using assms by (auto simp add: ex_menu_fields or_int_def w s)
qed

lemma ex_fallback_memory_only:
  "ivr_selection ex_digit9 (ex_memory_only (ex_ivr_session ex_ivr_config 2)) =
     Inr ([stream_verb ''CA1'', Say ''I'll connect you with our general assistant.'', Pause 60],
          ex_memory_only ((ex_ivr_session ex_ivr_config 2)\<lparr> selectedAgent := Some ex_agent1, ivrContext := None \<rparr>))"
proof -
  have s: "save_session ''CA1'' ((ex_ivr_session ex_ivr_config 2)\<lparr> selectedAgent := Some ex_agent1, ivrContext := None \<rparr>)
        (ex_memory_only (ex_ivr_session ex_ivr_config 2))
      = ex_memory_only ((ex_ivr_session ex_ivr_config 2)\<lparr> selectedAgent := Some ex_agent1, ivrContext := None \<rparr>)"
    by (simp add: save_session_def storeCallSession_def ex_memory_only_def Let_def)
  show ?thesis
    unfolding ivr_selection_def Let_def ex_sid9 ex_lookup option.case ex_session_fields
      ex_ivr_config_fields ex_nomatch9
    by (simp add: ex_menu_fields or_int_def first_elem_def s)
qed

text \<open>
  Three invalid digits in a row, with \<open>max_attempts = 3\<close>.  When the sessions are
  kept by the in-process store alone, the third is answered with the fallback.
\<close>

lemma three_invalid_digits_memory_only:
  "ivr_run [ex_digit9, ex_digit9, ex_digit9] (ex_memory_only (ex_ivr_session ex_ivr_config 0)) =
     [Inr [Gather 1 ''/webhook/ivr-selection?callSid=CA1'' 10
             (''Sorry, that's not a valid option. '' @ ''Press 2 for the night desk.''),
           Redirect ''/webhook/ivr-timeout?callSid=CA1''],
      Inr [Gather 1 ''/webhook/ivr-selection?callSid=CA1'' 10
             (''Sorry, that's not a valid option. '' @ ''Press 2 for the night desk.''),
           Redirect ''/webhook/ivr-timeout?callSid=CA1''],
      Inr [stream_verb ''CA1'', Say ''I'll connect you with our general assistant.'', Pause 60]]"
proof -
  have r0: "ivr_selection ex_digit9 (ex_memory_only (ex_ivr_session ex_ivr_config 0)) =
     Inr ([Gather 1 ''/webhook/ivr-selection?callSid=CA1'' 10
             (''Sorry, that's not a valid option. '' @ ''Press 2 for the night desk.''),
           Redirect ''/webhook/ivr-timeout?callSid=CA1''],
          ex_memory_only (ex_ivr_session ex_ivr_config 1))"
    using ex_retry_memory_only[of 0] by simp
  have r1: "ivr_selection ex_digit9 (ex_memory_only (ex_ivr_session ex_ivr_config 1)) =
     Inr ([Gather 1 ''/webhook/ivr-selection?callSid=CA1'' 10
             (''Sorry, that's not a valid option. '' @ ''Press 2 for the night desk.''),
           Redirect ''/webhook/ivr-timeout?callSid=CA1''],
          ex_memory_only (ex_ivr_session ex_ivr_config 2))"
    using ex_retry_memory_only[of 1] by simp
  show ?thesis
    by (simp only: ivr_run.simps r0 r1 ex_fallback_memory_only sum.case prod.case)
qed

text \<open>
  When the database is reachable and holds the row written at the IVR entry, every
  submission finds that row, with \<open>attempts = 0\<close>, whatever the in-process store
  holds.
\<close>

lemma ex_retry_with_row:
  "ivr_selection ex_digit9 (ex_row_and_memory (ex_ivr_session ex_ivr_config 0) s) =
     Inr ([Gather 1 ''/webhook/ivr-selection?callSid=CA1'' 10
             (''Sorry, that's not a valid option. '' @ ''Press 2 for the night desk.''),
           Redirect ''/webhook/ivr-timeout?callSid=CA1''],
          ex_row_and_memory (ex_ivr_session ex_ivr_config 0) (ex_ivr_session ex_ivr_config 1))"
proof -
  have l: "lookup_session ''CA1'' (ex_row_and_memory (ex_ivr_session ex_ivr_config 0) s)
      = Some (ex_ivr_session ex_ivr_config 0)"
    by (simp add: lookup_session_def getCallSession_def ex_row_and_memory_def)
  have w: "(ex_ivr_session ex_ivr_config 0)\<lparr> ivrContext := Some \<lparr> menuId = Some ''M1'', attempts = Some 1 \<rparr> \<rparr>
      = ex_ivr_session ex_ivr_config 1"
    by (simp add: ex_ivr_session_def)
  have sv: "save_session ''CA1'' (ex_ivr_session ex_ivr_config 1) (ex_row_and_memory (ex_ivr_session ex_ivr_config 0) s)
      = ex_row_and_memory (ex_ivr_session ex_ivr_config 0) (ex_ivr_session ex_ivr_config 1)"
    by (simp add: save_session_def storeCallSession_def ex_row_and_memory_def Let_def)
  show ?thesis
    unfolding ivr_selection_def Let_def ex_sid9 l option.case ex_session_fields
      ex_ivr_config_fields ex_nomatch9
    by (simp add: ex_menu_fields or_int_def w sv)
qed

lemma ex_ivr_query:
  "query_config ex_ivr_tables ''+15550001'' =
     (Some ex_ivr_config,
      [''phone_numbers'', ''phone_numbers'', ''ai_agents'', ''ivr_menus'', ''external_integrations''])"
  by (simp add: query_config_def ex_ivr_tables_def ex_tables_def ex_unbound_phone_def ex_phone_def
      ex_profile_def single_def js_find_def ex_agent1_def ex_agent2_def ex_menu_def
      ex_ivr_config_def Let_def)

lemma ex_ivr_resolve:
  "getClientConfigByPhoneNumber ex_ivr_tables 1000 Map.empty (body_To ex_req) =
     (Some ex_ivr_config, [''+15550001'' \<mapsto> \<lparr> data = ex_ivr_config, expiresAt = 301000 \<rparr>],
      [''phone_numbers'', ''phone_numbers'', ''ai_agents'', ''ivr_menus'', ''external_integrations''])"
  by (simp add: getClientConfigByPhoneNumber_def ex_ivr_query CACHE_TTL_def ex_req_def)

lemma ex_ivr_route:
  "route_voice ex_req ex_ivr_config st = handleIVRRouting ex_req ex_ivr_config st"
  by (simp add: route_voice_def strategy_dispatch_def truthy_str_def ex_ivr_config_def
      compile_config_def or_str_def ex_profile_def ex_unbound_phone_def)

lemma ivr_entry_writes_row:
  "handleIVRRouting ex_req ex_ivr_config ex_stores =
     Inr ([Gather 1 ''/webhook/ivr-selection?callSid=CA1'' 10 ''Press 2 for the night desk.'',
           Redirect ''/webhook/ivr-timeout?callSid=CA1''],
          ex_row_and_memory (ex_ivr_session ex_ivr_config 0) (ex_ivr_session ex_ivr_config 0))"
  by (simp add: handleIVRRouting_def ex_ivr_config_fields ex_menu_fields or_int_def ex_req_def
      save_session_def storeCallSession_def ex_stores_def ex_row_and_memory_def ex_ivr_session_def
      ex_menu_def Let_def)

lemma ex_lookup_row:
  "lookup_session ''CA1'' (ex_row_and_memory row s) = Some row"
  by (simp add: lookup_session_def getCallSession_def ex_row_and_memory_def)

text \<open>
  Claim C2.  The example tenant routes by IVR menu; its menu has \<open>max_attempts = 3\<close>
  and the one option 2, and its agents are \<open>A1\<close> and \<open>A2\<close>.  The database is
  reachable.  The voice webhook answers call \<open>CA1\<close> with the menu and stores the
  session with \<open>attempts = 0\<close>, in the table and in the in-process store.  The caller
  then presses 9 three times.  Each submission is answered with the menu behind the
  invalid-selection sentence, the third as the first: the fallback to the first agent
  \<open>A1\<close> is not given.  After a submission the in-process store holds
  \<open>attempts = 1\<close>, but the table row, which the next lookup reads, still holds
  \<open>attempts = 0\<close>.
\<close>

theorem third_invalid_digit_reprompts:
  "fst (voice_webhook ex_ivr_tables 1000 ex_req Map.empty ex_stores) =
     Inr ([Gather 1 ''/webhook/ivr-selection?callSid=CA1'' 10 ''Press 2 for the night desk.'',
           Redirect ''/webhook/ivr-timeout?callSid=CA1''],
          ex_row_and_memory (ex_ivr_session ex_ivr_config 0) (ex_ivr_session ex_ivr_config 0))
   \<and> max_attempts ex_menu = Some 3
   \<and> agents ex_ivr_config = [ex_agent1, ex_agent2]
   \<and> ivr_run [ex_digit9, ex_digit9, ex_digit9]
        (ex_row_and_memory (ex_ivr_session ex_ivr_config 0) (ex_ivr_session ex_ivr_config 0)) =
      [Inr [Gather 1 ''/webhook/ivr-selection?callSid=CA1'' 10
              ''Sorry, that's not a valid option. Press 2 for the night desk.'',
            Redirect ''/webhook/ivr-timeout?callSid=CA1''],
       Inr [Gather 1 ''/webhook/ivr-selection?callSid=CA1'' 10
              ''Sorry, that's not a valid option. Press 2 for the night desk.'',
            Redirect ''/webhook/ivr-timeout?callSid=CA1''],
       Inr [Gather 1 ''/webhook/ivr-selection?callSid=CA1'' 10
              ''Sorry, that's not a valid option. Press 2 for the night desk.'',
            Redirect ''/webhook/ivr-timeout?callSid=CA1'']]
   \<and> ivr_selection ex_digit9
        (ex_row_and_memory (ex_ivr_session ex_ivr_config 0) (ex_ivr_session ex_ivr_config 0)) =
      Inr ([Gather 1 ''/webhook/ivr-selection?callSid=CA1'' 10
              ''Sorry, that's not a valid option. Press 2 for the night desk.'',
            Redirect ''/webhook/ivr-timeout?callSid=CA1''],
           ex_row_and_memory (ex_ivr_session ex_ivr_config 0) (ex_ivr_session ex_ivr_config 1))
   \<and> lookup_session ''CA1''
        (ex_row_and_memory (ex_ivr_session ex_ivr_config 0) (ex_ivr_session ex_ivr_config 1)) =
      Some (ex_ivr_session ex_ivr_config 0)
   \<and> ivrContext (ex_ivr_session ex_ivr_config 0) = Some \<lparr> menuId = Some ''M1'', attempts = Some 0 \<rparr>"
proof -
  have entry: "fst (voice_webhook ex_ivr_tables 1000 ex_req Map.empty ex_stores) =
     Inr ([Gather 1 ''/webhook/ivr-selection?callSid=CA1'' 10 ''Press 2 for the night desk.'',
           Redirect ''/webhook/ivr-timeout?callSid=CA1''],
          ex_row_and_memory (ex_ivr_session ex_ivr_config 0) (ex_ivr_session ex_ivr_config 0))"
    by (simp add: voice_webhook_def ex_ivr_resolve ex_ivr_route ivr_entry_writes_row)
  have one: "ivr_selection ex_digit9
        (ex_row_and_memory (ex_ivr_session ex_ivr_config 0) (ex_ivr_session ex_ivr_config 0)) =
      Inr ([Gather 1 ''/webhook/ivr-selection?callSid=CA1'' 10
              ''Sorry, that's not a valid option. Press 2 for the night desk.'',
            Redirect ''/webhook/ivr-timeout?callSid=CA1''],
           ex_row_and_memory (ex_ivr_session ex_ivr_config 0) (ex_ivr_session ex_ivr_config 1))"
    by (simp add: ex_retry_with_row)
  have three: "ivr_run [ex_digit9, ex_digit9, ex_digit9]
        (ex_row_and_memory (ex_ivr_session ex_ivr_config 0) (ex_ivr_session ex_ivr_config 0)) =
      [Inr [Gather 1 ''/webhook/ivr-selection?callSid=CA1'' 10
              ''Sorry, that's not a valid option. Press 2 for the night desk.'',
            Redirect ''/webhook/ivr-timeout?callSid=CA1''],
       Inr [Gather 1 ''/webhook/ivr-selection?callSid=CA1'' 10
              ''Sorry, that's not a valid option. Press 2 for the night desk.'',
            Redirect ''/webhook/ivr-timeout?callSid=CA1''],
       Inr [Gather 1 ''/webhook/ivr-selection?callSid=CA1'' 10
              ''Sorry, that's not a valid option. Press 2 for the night desk.'',
            Redirect ''/webhook/ivr-timeout?callSid=CA1'']]"
    by (simp add: ex_retry_with_row)
  from entry ex_menu_fields(1) ex_ivr_config_fields(1) three one ex_lookup_row ex_session_fields(2)
  show ?thesis by (intro conjI)
qed


section \<open>Selecting an agent clears the IVR progress\<close>

text \<open>
  The session a handler hands to the stores.  Whenever the digit-submission handler
  writes, the written session either keeps the selected agent of the session found or
  has an agent selected and no \<open>ivrContext\<close>; the timeout handler always writes the
  latter.
\<close>

lemma cleared_when_set:
  "agent_kept_or_ivr_cleared cs (cs\<lparr> selectedAgent := Some a, ivrContext := None \<rparr>)"
  by (simp add: agent_kept_or_ivr_cleared_def)

lemma kept_when_retried: "agent_kept_or_ivr_cleared cs (cs\<lparr> ivrContext := c \<rparr>)"
  by (simp add: agent_kept_or_ivr_cleared_def)

lemma ivr_selection_writes:
  assumes "ivr_selection req st = Inr (tw, st')"
  shows "st' = st \<or> (\<exists>cs s'. lookup_session (or_str (query_callSid req) (body_CallSid req)) st = Some cs
            \<and> st' = save_session (or_str (query_callSid req) (body_CallSid req)) s' st
            \<and> agent_kept_or_ivr_cleared cs s')"
proof (cases "lookup_session (or_str (query_callSid req) (body_CallSid req)) st")
  case None
  with assms show ?thesis by (simp add: ivr_selection_def Let_def)
next
  case (Some cs)
  note cs = Some
  show ?thesis
  proof (cases "ivrMenu (clientConfig cs)")
    case None
    with assms cs show ?thesis by (simp add: ivr_selection_def Let_def)
  next
    case (Some menu)
    note menu = Some
    show ?thesis
    proof (cases "js_find (\<lambda>opt. Some (digit opt) = body_Digits req) (ivr_options menu)")
      case None
      with assms cs menu show ?thesis
        unfolding ivr_selection_def Let_def
        by (simp only: option.case split: if_splits option.splits)
           (use cleared_when_set kept_when_retried in blast)+
    next
      case (Some opt)
      with assms cs menu show ?thesis
        unfolding ivr_selection_def Let_def
        by (simp only: option.case split: if_splits option.splits)
           (use cleared_when_set kept_when_retried in blast)+
    qed
  qed
qed

lemma ivr_timeout_writes:
  assumes "ivr_timeout req st = Inr (tw, st')"
  shows "st' = st \<or> (\<exists>sid cs a. query_callSid req = Some sid \<and> lookup_session sid st = Some cs
            \<and> st' = save_session sid (cs\<lparr> selectedAgent := Some a, ivrContext := None \<rparr>) st)"
proof (cases "query_callSid req")
  case None
  with assms show ?thesis by (simp add: ivr_timeout_def)
next
  case (Some sid)
  note sid = Some
  show ?thesis
  proof (cases "lookup_session sid st")
    case None
    with assms sid show ?thesis by (simp add: ivr_timeout_def)
  next
    case (Some cs)
    with assms sid show ?thesis
      by (cases "first_elem (agents (clientConfig cs))") (auto simp: ivr_timeout_def)
  qed
qed

lemma save_session_memory_only:
  "save_session ''CA1'' s (ex_memory_only s0) = ex_memory_only s"
  by (simp add: save_session_def storeCallSession_def ex_memory_only_def Let_def)

lemma save_session_with_row:
  "save_session ''CA1'' s (ex_row_and_memory row s0) = ex_row_and_memory row s"
  by (simp add: save_session_def storeCallSession_def ex_row_and_memory_def Let_def)

lemma ex_connect_A2:
  "connect_twiml ''CA1'' ex_agent2 =
     [Start_Stream ''wss://work-2-uqgmjligulgfvwib.prod-runtime.all-hands.dev?callSid=CA1''
        ''both_tracks'',
      SayVoice ''alice'' ''en-US'' ''Hello! I am your AI assistant. How can I help you today?'',
      Pause 60]"
  by (simp add: connect_twiml_def stream_verb_def WEBSOCKET_URL_def default_greeting_def
      or_str_def ex_agent2_def)

lemma ex_stream:
  "stream_verb ''CA1'' =
     Start_Stream ''wss://work-2-uqgmjligulgfvwib.prod-runtime.all-hands.dev?callSid=CA1''
       ''both_tracks''"
  by (simp add: stream_verb_def WEBSOCKET_URL_def)

text \<open>
  With the in-process store alone, the session found after digit 2 is the one with agent
  \<open>A2\<close> selected and no \<open>ivrContext\<close>.
\<close>

lemma ex_select_2_memory_only:
  "ivr_selection ex_digit2 (ex_memory_only (ex_ivr_session ex_ivr_config 0)) =
     Inr (connect_twiml ''CA1'' ex_agent2,
          ex_memory_only
            ((ex_ivr_session ex_ivr_config 0)\<lparr> selectedAgent := Some ex_agent2, ivrContext := None \<rparr>))
   \<and> lookup_session ''CA1''
        (ex_memory_only
           ((ex_ivr_session ex_ivr_config 0)\<lparr> selectedAgent := Some ex_agent2, ivrContext := None \<rparr>))
      = Some ((ex_ivr_session ex_ivr_config 0)\<lparr> selectedAgent := Some ex_agent2, ivrContext := None \<rparr>)"
  unfolding ivr_selection_def Let_def ex_sid2 ex_lookup option.case ex_session_fields
    ex_ivr_config_fields ex_match2 ex_find_A2
  by (simp add: ex_option2_def save_session_memory_only)

lemma ex_select_2_with_row:
  "ivr_selection ex_digit2
      (ex_row_and_memory (ex_ivr_session ex_ivr_config 0) (ex_ivr_session ex_ivr_config 0)) =
     Inr (connect_twiml ''CA1'' ex_agent2,
          ex_row_and_memory (ex_ivr_session ex_ivr_config 0)
            ((ex_ivr_session ex_ivr_config 0)\<lparr> selectedAgent := Some ex_agent2, ivrContext := None \<rparr>))"
  unfolding ivr_selection_def Let_def ex_sid2 ex_lookup_row option.case ex_session_fields
    ex_ivr_config_fields ex_match2 ex_find_A2
  by (simp add: ex_option2_def save_session_with_row)

lemma ex_timeout_with_row:
  "ivr_timeout ex_no_digit
      (ex_row_and_memory (ex_ivr_session ex_ivr_config 0) (ex_ivr_session ex_ivr_config 0)) =
     Inr ([stream_verb ''CA1'', Say ''I'll connect you with our assistant.'', Pause 60],
          ex_row_and_memory (ex_ivr_session ex_ivr_config 0)
            ((ex_ivr_session ex_ivr_config 0)\<lparr> selectedAgent := Some ex_agent1, ivrContext := None \<rparr>))"
proof -
  have q: "query_callSid ex_no_digit = Some ''CA1''" by (simp add: ex_no_digit_def ex_req_def)
  show ?thesis
    unfolding ivr_timeout_def q option.case ex_lookup_row ex_session_fields ex_ivr_config_fields
    by (simp add: first_elem_def save_session_with_row)
qed

text \<open>
  Claim C7.  The example tenant's call \<open>CA1\<close> is at its menu: the table, reachable,
  holds the row written at the IVR entry, with no agent selected and the \<open>ivrContext\<close>
  pending.  The caller presses 2, the option of agent \<open>A2\<close>: the response connects the
  call (with the stock greeting, \<open>A2\<close> having none of its own), and the in-process
  store receives the session with \<open>A2\<close> selected and no \<open>ivrContext\<close>; but the
  table row is as it was, and it is the row that every later lookup finds: the stored
  session has no selected agent and its \<open>ivrContext\<close> is still pending.  The relay,
  connected for the call, finds no agent.  The table row is left the same way when the
  menu times out and the handler selects the first agent \<open>A1\<close>.
\<close>

theorem selected_agent_not_stored:
  "ivr_selection ex_digit2
      (ex_row_and_memory (ex_ivr_session ex_ivr_config 0) (ex_ivr_session ex_ivr_config 0)) =
     Inr ([Start_Stream ''wss://work-2-uqgmjligulgfvwib.prod-runtime.all-hands.dev?callSid=CA1''
             ''both_tracks'',
           SayVoice ''alice'' ''en-US'' ''Hello! I am your AI assistant. How can I help you today?'',
           Pause 60],
          ex_row_and_memory (ex_ivr_session ex_ivr_config 0)
            ((ex_ivr_session ex_ivr_config 0)\<lparr> selectedAgent := Some ex_agent2, ivrContext := None \<rparr>))
   \<and> ivr_timeout ex_no_digit
      (ex_row_and_memory (ex_ivr_session ex_ivr_config 0) (ex_ivr_session ex_ivr_config 0)) =
     Inr ([Start_Stream ''wss://work-2-uqgmjligulgfvwib.prod-runtime.all-hands.dev?callSid=CA1''
             ''both_tracks'',
           Say ''I'll connect you with our assistant.'',
           Pause 60],
          ex_row_and_memory (ex_ivr_session ex_ivr_config 0)
            ((ex_ivr_session ex_ivr_config 0)\<lparr> selectedAgent := Some ex_agent1, ivrContext := None \<rparr>))
   \<and> lookup_session ''CA1''
        (ex_row_and_memory (ex_ivr_session ex_ivr_config 0)
           ((ex_ivr_session ex_ivr_config 0)\<lparr> selectedAgent := Some ex_agent2, ivrContext := None \<rparr>))
      = Some (ex_ivr_session ex_ivr_config 0)
   \<and> agentInfo
        (on_connection ex_base ''CA1''
           (ex_row_and_memory (ex_ivr_session ex_ivr_config 0)
              ((ex_ivr_session ex_ivr_config 0)\<lparr> selectedAgent := Some ex_agent2, ivrContext := None \<rparr>))
           0 (Some ''L1''))
      = None
   \<and> selectedAgent (ex_ivr_session ex_ivr_config 0) = None
   \<and> ivrContext (ex_ivr_session ex_ivr_config 0) = Some \<lparr> menuId = Some ''M1'', attempts = Some 0 \<rparr>"
proof -
  have digit: "ivr_selection ex_digit2
      (ex_row_and_memory (ex_ivr_session ex_ivr_config 0) (ex_ivr_session ex_ivr_config 0)) =
     Inr ([Start_Stream ''wss://work-2-uqgmjligulgfvwib.prod-runtime.all-hands.dev?callSid=CA1''
             ''both_tracks'',
           SayVoice ''alice'' ''en-US'' ''Hello! I am your AI assistant. How can I help you today?'',
           Pause 60],
          ex_row_and_memory (ex_ivr_session ex_ivr_config 0)
            ((ex_ivr_session ex_ivr_config 0)\<lparr> selectedAgent := Some ex_agent2, ivrContext := None \<rparr>))"
    by (simp only: ex_select_2_with_row ex_connect_A2)
  have timeout: "ivr_timeout ex_no_digit
      (ex_row_and_memory (ex_ivr_session ex_ivr_config 0) (ex_ivr_session ex_ivr_config 0)) =
     Inr ([Start_Stream ''wss://work-2-uqgmjligulgfvwib.prod-runtime.all-hands.dev?callSid=CA1''
             ''both_tracks'',
           Say ''I'll connect you with our assistant.'',
           Pause 60],
          ex_row_and_memory (ex_ivr_session ex_ivr_config 0)
            ((ex_ivr_session ex_ivr_config 0)\<lparr> selectedAgent := Some ex_agent1, ivrContext := None \<rparr>))"
    by (simp only: ex_timeout_with_row ex_stream)
  have relay: "agentInfo
        (on_connection ex_base ''CA1''
           (ex_row_and_memory (ex_ivr_session ex_ivr_config 0)
              ((ex_ivr_session ex_ivr_config 0)\<lparr> selectedAgent := Some ex_agent2, ivrContext := None \<rparr>))
           0 (Some ''L1''))
      = None"
    by (simp add: on_connection_def ex_lookup_row ex_session_fields Let_def)
  from digit timeout ex_lookup_row relay ex_session_fields(3) ex_session_fields(2)
  show ?thesis by (intro conjI)
qed


section \<open>Time-based routing\<close>

text \<open>
  Claim C3.  The time-based handler asks the weekday formatter for the style
  \<open>numeric\<close>, which the formatter does not admit: for every request, configuration
  and store the handler ends in a \<open>RangeError\<close>, before any agent is chosen and
  without a response.  No call is classified as inside or outside business hours.
\<close>

theorem time_based_routing_raises:
  "handleTimeBasedRouting req cfg st = Inl RangeError"
  by (simp add: handleTimeBasedRouting_def intl_weekday_def Let_def)

text \<open>
  The comparison that follows in the handler is the one the claim describes.  With the
  weekday number supplied, the example tenant (business days 1 to 5, 09:00 to 17:00) is
  in business hours on Monday at 09:00 and at 17:00, and outside them on Monday at 17:01
  and on Saturday at 10:00.  Without a weekday number no time is in business hours; the
  keys of \<open>dayMap\<close> are the long English names, which only the style \<open>long\<close> yields.
\<close>

lemma ex_minutes:
  "minutes_of ''09:00'' = Fin 540"
  "minutes_of ''17:00'' = Fin 1020"
  "minutes_of (intl_hour_minute 9 0) = Fin 540"
  "minutes_of (intl_hour_minute 17 0) = Fin 1020"
  "minutes_of (intl_hour_minute 17 1) = Fin 1021"
  "minutes_of (intl_hour_minute 17 (Suc 0)) = Fin 1021"
  "minutes_of (intl_hour_minute 10 0) = Fin 600"
  by (simp_all add: minutes_of_def js_Number_def trim_def is_space_def unsigned_decimal_def
      is_dec_def digit_value_def exponent_of_def pow10_def to_double_def floor_log2_def pow2_def
      round_half_even_def intl_hour_minute_def dec_digit_def Let_def)

lemma business_hours_bounds_example:
  "isBusinessHours ex_config (Some 1) (intl_hour_minute 9 0)
   \<and> isBusinessHours ex_config (Some 1) (intl_hour_minute 17 0)
   \<and> \<not> isBusinessHours ex_config (Some 1) (intl_hour_minute 17 1)
   \<and> \<not> isBusinessHours ex_config (Some 6) (intl_hour_minute 10 0)"
  by (simp add: isBusinessHours_def businessHoursAgent_of_def ex_config_fields ex_agent1_def
      ex_agent2_def or_list_def or_str_def ex_minutes Let_def)

lemma business_hours_agents_example:
  "time_based_agent ex_config (Some 1) (intl_hour_minute 17 0) = Some ex_agent1
   \<and> time_based_agent ex_config (Some 1) (intl_hour_minute 17 1) = Some ex_agent2"
  by (simp add: time_based_agent_def isBusinessHours_def businessHoursAgent_of_def
      afterHoursAgent_of_def ex_config_fields ex_agent1_def
      ex_agent2_def or_list_def or_str_def ex_minutes Let_def)

lemma no_weekday_never_business_hours: "\<not> isBusinessHours cfg None clientTime"
  by (simp add: isBusinessHours_def Let_def)

lemma dayMap_long_names: "map_of dayMap (long_day d) = Some (int (d mod 7))"
proof -
  have "d mod 7 < 7" by simp
  then have "d mod 7 \<in> {0, 1, 2, 3, 4, 5, 6}" by auto
  then show ?thesis
    by (auto simp: dayMap_def long_day_def)
qed


text \<open>
  The reading of the two times of day follows \<open>Number\<close>: white space around a
  component is dropped, a sign, an exponent and the hexadecimal form are read, and what
  is no numeric literal is \<open>NaN\<close>, which makes every comparison false.
\<close>

lemma js_Number_examples:
  "js_Number ''09'' = Fin 9"
  "js_Number '' 9'' = Fin 9"
  "js_Number ''+9'' = Fin 9"
  "js_Number ''1e1'' = Fin 10"
  "js_Number ''0x1F'' = Fin 31"
  "js_Number '''' = Fin 0"
  "js_Number ''9a'' = NaN"
  by (simp_all add: js_Number_def trim_def is_space_def unsigned_decimal_def
      is_dec_def digit_value_def digits_value_def exponent_of_def pow10_def to_double_def
      floor_log2_def pow2_def round_half_even_def Let_def)

lemma minutes_of_examples:
  "minutes_of '' 9:00'' = Fin 540"
  "minutes_of ''9:5'' = Fin 545"
  "minutes_of ''24:00'' = Fin 1440"
  "minutes_of ''0900'' = NaN"
  "minutes_of ''9am:00'' = NaN"
  by (simp_all add: minutes_of_def js_Number_def trim_def is_space_def unsigned_decimal_def
      is_dec_def digit_value_def digits_value_def exponent_of_def pow10_def to_double_def
      floor_log2_def pow2_def round_half_even_def Let_def)


section \<open>Extension routing\<close>

text \<open>
  An extension that names an inherited property of the extension map, such as
  \<open>constructor\<close>, reads as a value that is truthy and is no agent's id: the caller is
  told that the agent is not available, where an unknown extension is told that it is
  not valid.
\<close>

lemma object_get_examples:
  "object_get [(''101'', ''A1'')] ''101'' = Own ''A1''"
  "object_get [(''101'', ''A1'')] ''102'' = Undefined"
  "object_get [(''101'', ''A1'')] ''constructor'' = Inherited"
  "object_get [(''101'', ''A1'')] ''toString'' = Inherited"
  by (simp_all add: object_get_def inherited_names_def)

lemma extension_examples:
  assumes "first_elem (externalIntegrations cfg) =
             Some \<lparr> i_id = ''I1'', i_profile_id = Some ''P1'', integration_type = ''extension'',
                    sip_uri = None, extension_map = Some [(''101'', ''A1'')],
                    forwarding_agent_id = None, i_is_active = Some True \<rparr>"
  shows "handleExternalIntegration (ex_req\<lparr> query_extension := Some ''constructor'' \<rparr>) cfg st =
           Inr ([Say ''Sorry, the AI agent for this extension is not available.''], st)"
    and "handleExternalIntegration (ex_req\<lparr> query_extension := Some ''102'' \<rparr>) cfg st =
           Inr ([Say ''Sorry, that extension is not valid.''], st)"
  using assms
  by (simp_all add: handleExternalIntegration_def ex_req_def or_opt_def truthy_str_def or_list_def
      object_get_def inherited_names_def Let_def)


section \<open>The relay's event handlers\<close>

lemma relay_run_Nil: "relay_run sock [] = sock"
  by (simp add: relay_run_def)

lemma relay_run_Cons: "relay_run sock (ev # evs) = relay_run (relay_step sock ev) evs"
  by (simp add: relay_run_def)

lemma on_message_fields:
  "callLogId (on_message sock m t) = callLogId sock"
  "sink (on_message sock m t) = sink sock"
  "to_twilio (on_message sock m t) = to_twilio sock"
  "timers (on_message sock m t) = timers sock"
  "clientInfo (on_message sock m t) = clientInfo sock"
  by (cases m; simp add: on_message_def handleTwilioMessage_def Let_def)+

lemma on_message_to_gemini:
  "set (to_gemini (on_message sock m t)) \<subseteq> set (to_gemini sock) \<union> {Gemini_close} \<union> range SendRealtimeInput"
  by (cases m; auto simp add: on_message_def handleTwilioMessage_def Let_def)

lemma onServerContent_fields:
  "callLogId (onServerContent sock ps) = callLogId sock"
  "sink (onServerContent sock ps) = sink sock"
  "to_gemini (onServerContent sock ps) = to_gemini sock"
  "timers (onServerContent sock ps) = timers sock"
  "clientInfo (onServerContent sock ps) = clientInfo sock"
  by (simp_all add: onServerContent_def handleGeminiResponse_def Let_def)

lemma onServerContent_to_twilio:
  "Twilio_close \<in> set (to_twilio (onServerContent sock ps)) \<Longrightarrow> Twilio_close \<in> set (to_twilio sock)"
  by (auto simp add: onServerContent_def handleGeminiResponse_def Let_def)

lemma on_close_fields:
  "callLogId (on_close sock e i) = callLogId sock"
  "to_twilio (on_close sock e i) = to_twilio sock"
  "timers (on_close sock e i) = timers sock"
  "clientInfo (on_close sock e i) = clientInfo sock"
  "to_gemini (on_close sock e i) = to_gemini sock @ [Gemini_close]"
  by (simp_all add: on_close_def Let_def split: option.splits)

lemma on_close_sink:
  "sink (on_close sock endMs endIso) = sink sock @
     (if truthy_str (callLogId sock)
      then UpdateCallLog (the (callLogId sock)) ''completed'' endIso
             (durationSeconds (callStartTime sock) endMs) (transcript sock)
           # (case clientInfo sock of
                None \<Rightarrow> []
              | Some info \<Rightarrow> [IncrementMinutesUsed (clientId info)
                                (minutesUsed_of (durationSeconds (callStartTime sock) endMs))])
      else [])"
  by (simp add: on_close_def Let_def split: option.splits)

lemma gemini_handlers_fields:
  "callLogId (geminiClient_onReady sock) = callLogId sock"
  "sink (geminiClient_onReady sock) = sink sock"
  "to_twilio (geminiClient_onReady sock) = to_twilio sock"
  "to_gemini (geminiClient_onReady sock) = to_gemini sock"
  "timers (geminiClient_onReady sock) = timers sock"
  "callLogId (geminiClient_onError sock) = callLogId sock"
  "sink (geminiClient_onError sock) = sink sock"
  "to_twilio (geminiClient_onError sock) = to_twilio sock"
  "to_gemini (geminiClient_onError sock) = to_gemini sock"
  "timers (geminiClient_onError sock) = timers sock"
  "callLogId (geminiClient_onClose sock) = callLogId sock"
  "sink (geminiClient_onClose sock) = sink sock"
  "to_twilio (geminiClient_onClose sock) = to_twilio sock"
  "to_gemini (geminiClient_onClose sock) = to_gemini sock"
  "timers (geminiClient_onClose sock) = timers sock"
  by (simp_all add: geminiClient_onReady_def geminiClient_onError_def geminiClient_onClose_def)

lemma on_timer_fields:
  "callLogId (on_timer sock r) = callLogId sock"
  "sink (on_timer sock r) = sink sock"
  "to_twilio (on_timer sock r) = to_twilio sock"
  by (simp_all add: on_timer_def greeting_timer_def split: list.splits)

lemma on_timer_idle: "timers sock = [] \<Longrightarrow> on_timer sock r = sock"
  by (simp add: on_timer_def)

lemma step_callLogId: "callLogId (relay_step sock ev) = callLogId sock"
  by (cases ev) (simp_all add: relay_step_def on_message_fields onServerContent_fields
      on_close_fields gemini_handlers_fields on_timer_fields)

lemma step_finalize:
  "length (filter is_finalize (sink (relay_step sock ev))) =
     length (filter is_finalize (sink sock))
       + (if is_telephony_close ev \<and> truthy_str (callLogId sock) then 1 else 0)"
  by (cases ev) (simp_all add: relay_step_def on_message_fields onServerContent_fields
      on_close_sink gemini_handlers_fields on_timer_fields split: option.splits)

lemma run_callLogId: "callLogId (relay_run sock evs) = callLogId sock"
  by (induction evs arbitrary: sock) (simp_all add: relay_run_Nil relay_run_Cons step_callLogId)

lemma run_finalize:
  "truthy_str (callLogId sock) \<Longrightarrow>
   length (filter is_finalize (sink (relay_run sock evs))) =
     length (filter is_finalize (sink sock)) + length (filter is_telephony_close evs)"
proof (induction evs arbitrary: sock)
  case Nil
  then show ?case by (simp add: relay_run_Nil)
next
  case (Cons ev evs)
  have "truthy_str (callLogId (relay_step sock ev))"
    using Cons.prems by (simp add: step_callLogId)
  from Cons.IH[OF this] Cons.prems show ?case
    by (simp add: relay_run_Cons step_finalize)
qed

lemma step_no_twilio_close:
  "Twilio_close \<in> set (to_twilio (relay_step sock ev)) \<Longrightarrow> Twilio_close \<in> set (to_twilio sock)"
  by (cases ev) (simp_all add: relay_step_def on_message_fields
      on_close_fields gemini_handlers_fields on_timer_fields onServerContent_to_twilio)

lemma run_no_twilio_close:
  "Twilio_close \<in> set (to_twilio (relay_run sock evs)) \<Longrightarrow> Twilio_close \<in> set (to_twilio sock)"
  by (induction evs arbitrary: sock) (auto simp: relay_run_Nil relay_run_Cons dest: step_no_twilio_close)

lemma step_no_greeting:
  assumes "timers sock = []" "Gemini_send g \<notin> set (to_gemini sock)"
  shows "timers (relay_step sock ev) = [] \<and> Gemini_send g \<notin> set (to_gemini (relay_step sock ev))"
proof (cases ev)
  case (TwilioMessage m t)
  then show ?thesis using assms on_message_to_gemini[of sock m t]
    by (auto simp: relay_step_def on_message_fields)
qed (use assms in \<open>simp_all add: relay_step_def onServerContent_fields
      on_close_fields gemini_handlers_fields on_timer_idle\<close>)

lemma run_no_greeting:
  "timers sock = [] \<Longrightarrow> Gemini_send g \<notin> set (to_gemini sock) \<Longrightarrow>
   timers (relay_run sock evs) = [] \<and> Gemini_send g \<notin> set (to_gemini (relay_run sock evs))"
proof (induction evs arbitrary: sock)
  case Nil
  then show ?case by (simp add: relay_run_Nil)
next
  case (Cons ev evs)
  from step_no_greeting[OF Cons.prems]
  have "timers (relay_step sock ev) = []" "Gemini_send g \<notin> set (to_gemini (relay_step sock ev))"
    by auto
  from Cons.IH[OF this] show ?case by (simp add: relay_run_Cons)
qed

lemma on_connection_fresh:
  "timers (on_connection base callSid st t0 created) = []"
  "to_gemini (on_connection base callSid st t0 created) = []"
  "to_twilio (on_connection base callSid st t0 created) = []"
  by (simp_all add: on_connection_def Let_def)

lemma on_connection_logged:
  assumes "callSid \<noteq> []" "lookup_session callSid st = Some cs" "selectedAgent cs = Some a"
  shows "callLogId (on_connection base callSid st t0 created) = created"
    and "clientInfo (on_connection base callSid st t0 created) = Some (clientConfig cs)"
    and "sink (on_connection base callSid st t0 created) = [CreateCallLog (clientId (clientConfig cs)) (a_id a) callSid]"
    and "callStartTime (on_connection base callSid st t0 created) = t0"
  using assms by (simp_all add: on_connection_def Let_def)

lemma increments_of_append: "increments_of (xs @ ys) = increments_of xs @ increments_of ys"
  by (induction xs rule: increments_of.induct) simp_all

lemma minutesUsed_of_div: "minutesUsed_of d = - ((- d) div 60)"
proof -
  have "\<lceil>(of_int d :: rat) / of_int 60\<rceil> = - ((- d) div 60)"
    by (rule ceiling_divide_eq_div)
  then show ?thesis by (simp add: minutesUsed_of_def)
qed

lemma minutesUsed_of_real: "minutesUsed_of d = \<lceil>real_of_int d / 60\<rceil>"
proof -
  have "\<lceil>real_of_int d / of_int 60\<rceil> = - ((- d) div 60)"
    by (rule ceiling_divide_eq_div)
  then show ?thesis by (simp add: minutesUsed_of_div)
qed

lemma ex_socket_fields:
  "callLogId ex_socket = Some ''L1''"
  "clientInfo ex_socket = Some ex_config"
  "sink ex_socket = [CreateCallLog ''P1'' ''A1'' ''CA1'']"
  "callStartTime ex_socket = 0"
  "to_twilio ex_socket = []"
  "to_gemini ex_socket = []"
  "transcript ex_socket = []"
  "timers ex_socket = []"
  using on_connection_logged[of "''CA1''" "ex_memory_only ex_selected" ex_selected ex_agent1 ex_base 0 "Some ''L1''"]
  by (simp_all add: ex_socket_def ex_lookup ex_selected_fields ex_config_fields ex_agent1_def
      on_connection_fresh on_connection_def Let_def)

lemma ex_unlogged_fields:
  "callLogId ex_unlogged = None"
  "clientInfo ex_unlogged = Some ex_config"
  "sink ex_unlogged = [CreateCallLog ''P1'' ''A1'' ''CA1'']"
  "callStartTime ex_unlogged = 0"
  using on_connection_logged[of "''CA1''" "ex_memory_only ex_selected" ex_selected ex_agent1 ex_base 0 None]
  by (simp_all add: ex_unlogged_def ex_lookup ex_selected_fields ex_config_fields ex_agent1_def)


section \<open>Usage increment\<close>

text \<open>
  Claim C4, as amended.  When the telephony socket of a call with a client profile
  attached closes, the usage increments reported to the sink grow by exactly one entry
  if the call has a call record (a non-empty \<open>callLogId\<close>), and by none otherwise;
  the entry is for the profile's client id and its amount is the ceiling of
  \<open>durationSeconds / 60\<close>.
\<close>

theorem usage_increment_is_ceiling:
  assumes "clientInfo sock = Some info"
  shows "increments_of (sink (relay_step sock (TwilioClose endMs endIso))) =
           increments_of (sink sock) @
             (if truthy_str (callLogId sock)
              then [(clientId info, \<lceil>real_of_int (durationSeconds (callStartTime sock) endMs) / 60\<rceil>)]
              else [])"
  using assms
  by (simp add: relay_step_def on_close_sink increments_of_append minutesUsed_of_real)

text \<open>
  On the example call, which has its call record \<open>L1\<close>: 61 seconds add 2 minutes,
  60 seconds add 1.
\<close>

theorem usage_increment_is_ceiling_witness:
  "durationSeconds (callStartTime ex_socket) 61000 = 61
   \<and> increments_of (sink (relay_step ex_socket (TwilioClose 61000 ''2024-01-01T14:01:01.000Z''))) = [(''P1'', 2)]
   \<and> durationSeconds (callStartTime ex_socket) 60000 = 60
   \<and> increments_of (sink (relay_step ex_socket (TwilioClose 60000 ''2024-01-01T14:01:00.000Z''))) = [(''P1'', 1)]"
  using usage_increment_is_ceiling[OF ex_socket_fields(2), of 61000 "''2024-01-01T14:01:01.000Z''"]
        usage_increment_is_ceiling[OF ex_socket_fields(2), of 60000 "''2024-01-01T14:01:00.000Z''"]
  by (simp add: ex_socket_fields durationSeconds_def truthy_str_def ex_config_fields)

text \<open>
  The claim as first stated fails on the same call when its call record could not be
  created: the client profile is attached, the call lasts 61 seconds, and the close
  handler reports nothing to the sink, no usage among it.
\<close>

theorem usage_increment_counterexample:
  "clientInfo ex_unlogged = Some ex_config
   \<and> callLogId ex_unlogged = None
   \<and> durationSeconds (callStartTime ex_unlogged) 61000 = 61
   \<and> sink (relay_step ex_unlogged (TwilioClose 61000 ''2024-01-01T14:01:01.000Z''))
       = [CreateCallLog ''P1'' ''A1'' ''CA1'']
   \<and> increments_of (sink (relay_step ex_unlogged (TwilioClose 61000 ''2024-01-01T14:01:01.000Z'')))
       = []"
  by (simp add: relay_step_def on_close_sink ex_unlogged_fields durationSeconds_def truthy_str_def)


section \<open>Finalizing the call record\<close>

text \<open>
  Claim C5.  A call whose connection found a session with a selected agent and whose
  call record was created (a non-empty record id) receives, over any sequence of events
  in which the telephony socket closes exactly once, exactly one finalizing update of
  its record, wherever the events of the speech side fall in the sequence.
\<close>

theorem exactly_one_finalize:
  assumes "callSid \<noteq> []" "lookup_session callSid st = Some cs" "selectedAgent cs = Some a"
      and "created = Some logId" "logId \<noteq> []"
      and "length (filter is_telephony_close evs) = 1"
  shows "length (filter is_finalize (sink (relay_run (on_connection base callSid st startMs created) evs))) = 1"
proof -
  let ?sock = "on_connection base callSid st startMs created"
  have l: "callLogId ?sock = created" and s: "sink ?sock = [CreateCallLog (clientId (clientConfig cs)) (a_id a) callSid]"
    using on_connection_logged[OF assms(1,2,3)] by simp_all
  have t: "truthy_str (callLogId ?sock)"
    using assms(4,5) unfolding l by (simp add: truthy_str_def)
  from run_finalize[OF t, of evs] assms(6) show ?thesis
    by (simp add: s)
qed

text \<open>
  The speech side closes before the telephony side, or after it: one finalizing update
  either way, with the duration and the status \<open>completed\<close>.
\<close>

theorem exactly_one_finalize_witness:
  "filter is_finalize (sink (relay_run ex_socket [GeminiClose, TwilioClose 61000 ''2024-01-01T14:01:01.000Z'']))
     = [UpdateCallLog ''L1'' ''completed'' ''2024-01-01T14:01:01.000Z'' 61 []]
   \<and> length (filter is_finalize
        (sink (relay_run ex_socket [GeminiClose, TwilioClose 61000 ''2024-01-01T14:01:01.000Z'']))) = 1
   \<and> length (filter is_finalize
        (sink (relay_run ex_socket [TwilioClose 61000 ''2024-01-01T14:01:01.000Z'', GeminiClose]))) = 1"
proof -
  have n: "''CA1'' \<noteq> []" "''L1'' \<noteq> []" by simp_all
  have c1: "length (filter is_telephony_close [GeminiClose, TwilioClose 61000 ''2024-01-01T14:01:01.000Z'']) = 1"
    and c2: "length (filter is_telephony_close [TwilioClose 61000 ''2024-01-01T14:01:01.000Z'', GeminiClose]) = 1"
    by simp_all
  note a = exactly_one_finalize[OF n(1) ex_lookup ex_selected_fields(1) refl n(2) c1,
      where base = ex_base and startMs = 0, folded ex_socket_def]
  note b = exactly_one_finalize[OF n(1) ex_lookup ex_selected_fields(1) refl n(2) c2,
      where base = ex_base and startMs = 0, folded ex_socket_def]
  have e: "filter is_finalize (sink (relay_run ex_socket [GeminiClose, TwilioClose 61000 ''2024-01-01T14:01:01.000Z'']))
     = [UpdateCallLog ''L1'' ''completed'' ''2024-01-01T14:01:01.000Z'' 61 []]"
    by (simp add: relay_run_Cons relay_run_Nil relay_step_def on_close_sink gemini_handlers_fields
        geminiClient_onClose_def ex_socket_fields truthy_str_def durationSeconds_def)
  from e a b show ?thesis by (intro conjI)
qed


section \<open>Speech-side events\<close>

text \<open>
  Claim C8, as amended.  When the speech client of a call closes or reports an error,
  the relay writes one log line and does nothing else; and over any sequence of events
  after the connection, the relay never closes the telephony socket.
\<close>

theorem speech_close_only_logs:
  "relay_step sock GeminiClose = sock\<lparr> console := console sock @ [''Gemini Live client closed''] \<rparr>
   \<and> relay_step sock GeminiError = sock\<lparr> console := console sock @ [''Gemini Live client error''] \<rparr>
   \<and> Twilio_close \<notin> set (to_twilio (relay_run (on_connection base callSid st startMs created) evs))"
proof (intro conjI)
  show "relay_step sock GeminiClose = sock\<lparr> console := console sock @ [''Gemini Live client closed''] \<rparr>"
    by (simp add: relay_step_def geminiClient_onClose_def)
  show "relay_step sock GeminiError = sock\<lparr> console := console sock @ [''Gemini Live client error''] \<rparr>"
    by (simp add: relay_step_def geminiClient_onError_def)
  show "Twilio_close \<notin> set (to_twilio (relay_run (on_connection base callSid st startMs created) evs))"
  proof
    assume "Twilio_close \<in> set (to_twilio (relay_run (on_connection base callSid st startMs created) evs))"
    then have "Twilio_close \<in> set (to_twilio (on_connection base callSid st startMs created))"
      by (rule run_no_twilio_close)
    then show False by (simp add: on_connection_fresh)
  qed
qed

text \<open>
  The claim as first stated fails on the example call: after the speech client closes
  (or fails) with the telephony socket open, nothing has been sent to the telephony
  socket, no close among it; the log line is all there is.
\<close>

theorem speech_close_counterexample:
  "to_twilio (relay_run ex_socket [GeminiClose]) = []
   \<and> to_twilio (relay_run ex_socket [GeminiError]) = []
   \<and> console (relay_run ex_socket [GeminiClose]) = console ex_socket @ [''Gemini Live client closed'']
   \<and> sink (relay_run ex_socket [GeminiClose]) = sink ex_socket"
  by (simp add: relay_run_Cons relay_run_Nil relay_step_def gemini_handlers_fields ex_socket_fields
      geminiClient_onClose_def)

text \<open>
  Claim C9.  The handler installed on the call's speech client for readiness writes a
  log line and nothing else; the function that arms the greeting timer belongs to the
  server-wide events object and is invoked by no handler.  So no timer is ever pending,
  and over any sequence of events after the connection the greeting directive is never
  sent to the speech endpoint.
\<close>

theorem greeting_never_sent:
  "relay_step sock GeminiReady = sock\<lparr> console := console sock @ [''Gemini Live client connected and ready''] \<rparr>
   \<and> timers (relay_run (on_connection base callSid st startMs created) evs) = []
   \<and> Gemini_send greeting_directive \<notin> set (to_gemini (relay_run (on_connection base callSid st startMs created) evs))"
proof -
  have "timers (on_connection base callSid st startMs created) = []"
    and "Gemini_send greeting_directive \<notin> set (to_gemini (on_connection base callSid st startMs created))"
    by (simp_all add: on_connection_fresh)
  from run_no_greeting[OF this]
  show ?thesis by (simp add: relay_step_def geminiClient_onReady_def)
qed

text \<open>
  Had the readiness handler called it, the directive would go out once the timer fires
  with the client ready.
\<close>

lemma greeting_sent_if_armed:
  "to_gemini (on_timer (server_geminiLive_onReady ex_socket) 1) = [Gemini_send greeting_directive]"
  by (simp add: on_timer_def server_geminiLive_onReady_def greeting_timer_def ex_socket_fields)


section \<open>Configuration resolver\<close>

text \<open>
  Claim C6, as amended.  The resolver looks in its cache first.  An entry for the number
  whose expiry lies in the future is returned as it is, the cache is left as it was and
  no table is queried.  Without such an entry, a number that no row of \<open>phone_numbers\<close>
  matches resolves to \<open>null\<close>.  A configuration obtained from the tables is cached with
  an expiry 5 minutes (300000 ms) after the call.
\<close>

theorem resolver_cache_then_source:
  "(\<forall>e. cache pn = Some e \<and> now < expiresAt e \<longrightarrow>
        getClientConfigByPhoneNumber db now cache pn = (Some (data e), cache, []))
   \<and> ((\<forall>e. cache pn = Some e \<longrightarrow> expiresAt e \<le> now)
        \<and> (\<forall>r \<in> set (phone_numbers db). phone_number r \<noteq> pn) \<longrightarrow>
        fst (getClientConfigByPhoneNumber db now cache pn) = None)
   \<and> (\<forall>cfg cache' qs. getClientConfigByPhoneNumber db now cache pn = (Some cfg, cache', qs) \<and> qs \<noteq> [] \<longrightarrow>
        cache' pn = Some \<lparr> data = cfg, expiresAt = now + 300000 \<rparr>)"
proof (intro conjI allI impI)
  fix e assume "cache pn = Some e \<and> now < expiresAt e"
  then show "getClientConfigByPhoneNumber db now cache pn = (Some (data e), cache, [])"
    by (simp add: getClientConfigByPhoneNumber_def)
next
  assume a: "(\<forall>e. cache pn = Some e \<longrightarrow> expiresAt e \<le> now)
        \<and> (\<forall>r \<in> set (phone_numbers db). phone_number r \<noteq> pn)"
  then have "filter (\<lambda>r. phone_number r = pn) (phone_numbers db) = []"
    by (simp add: filter_empty_conv)
  then have q: "fst (query_config db pn) = None"
    by (simp add: query_config_def single_def)
  from a have miss: "(case cache pn of None \<Rightarrow> None
            | Some cachedConfig \<Rightarrow> if expiresAt cachedConfig > now then Some (data cachedConfig) else None) = None"
    by (auto split: option.splits)
  show "fst (getClientConfigByPhoneNumber db now cache pn) = None"
    using q unfolding getClientConfigByPhoneNumber_def miss
    by (cases "query_config db pn") (auto simp: Let_def split: option.splits)
next
  fix cfg cache' qs
  assume "getClientConfigByPhoneNumber db now cache pn = (Some cfg, cache', qs) \<and> qs \<noteq> []"
  then show "cache' pn = Some \<lparr> data = cfg, expiresAt = now + 300000 \<rparr>"
    by (auto simp: getClientConfigByPhoneNumber_def Let_def CACHE_TTL_def
        split: option.splits if_splits prod.splits)
qed

text \<open>
  On the example tenant: the first call at time 1000 reads the tables and caches the
  configuration until 301000; a call at 300999 is served from that entry without a
  query; and with the tables emptied and no cache, the number resolves to \<open>null\<close>.
\<close>

theorem resolver_cache_then_source_witness:
  "getClientConfigByPhoneNumber ex_tables 1000 Map.empty ''+15550001'' =
     (Some ex_config, [''+15550001'' \<mapsto> \<lparr> data = ex_config, expiresAt = 301000 \<rparr>],
      [''phone_numbers'', ''phone_numbers'', ''ai_agents'', ''ivr_menus'', ''external_integrations''])
   \<and> getClientConfigByPhoneNumber ex_tables 300999
        [''+15550001'' \<mapsto> \<lparr> data = ex_config, expiresAt = 301000 \<rparr>] ''+15550001'' =
     (Some ex_config, [''+15550001'' \<mapsto> \<lparr> data = ex_config, expiresAt = 301000 \<rparr>], [])
   \<and> fst (getClientConfigByPhoneNumber (ex_tables\<lparr> phone_numbers := [] \<rparr>) 1000 Map.empty ''+15550001'') = None"
proof -
  have r: "getClientConfigByPhoneNumber ex_tables 1000 Map.empty ''+15550001'' =
     (Some ex_config, [''+15550001'' \<mapsto> \<lparr> data = ex_config, expiresAt = 301000 \<rparr>],
      [''phone_numbers'', ''phone_numbers'', ''ai_agents'', ''ivr_menus'', ''external_integrations''])"
    using ex_resolve by (simp add: ex_req_def)
  note t1 = resolver_cache_then_source[of Map.empty "''+15550001''" 1000 ex_tables]
  note t2 = resolver_cache_then_source[of "[''+15550001'' \<mapsto> \<lparr> data = ex_config, expiresAt = 301000 \<rparr>]"
      "''+15550001''" 300999 ex_tables]
  note t3 = resolver_cache_then_source[of Map.empty "''+15550001''" 1000 "ex_tables\<lparr> phone_numbers := [] \<rparr>"]
  from t1 r have a: "[''+15550001'' \<mapsto> \<lparr> data = ex_config, expiresAt = 301000 \<rparr>] ''+15550001''
      = Some \<lparr> data = ex_config, expiresAt = 1000 + 300000 \<rparr>"
    by simp
  from t2 have b: "getClientConfigByPhoneNumber ex_tables 300999
        [''+15550001'' \<mapsto> \<lparr> data = ex_config, expiresAt = 301000 \<rparr>] ''+15550001'' =
     (Some ex_config, [''+15550001'' \<mapsto> \<lparr> data = ex_config, expiresAt = 301000 \<rparr>], [])"
    by simp
  from t3 have c: "fst (getClientConfigByPhoneNumber (ex_tables\<lparr> phone_numbers := [] \<rparr>) 1000 Map.empty ''+15550001'') = None"
    by simp
  from r b c show ?thesis by (intro conjI)
qed

text \<open>
  The claim as first stated fails when a number's row is removed while its cache entry
  is still fresh: no row matches, and the resolver returns the cached configuration.
\<close>

theorem resolver_no_row_counterexample:
  "phone_numbers (ex_tables\<lparr> phone_numbers := [] \<rparr>) = []
   \<and> getClientConfigByPhoneNumber (ex_tables\<lparr> phone_numbers := [] \<rparr>) 2000
        [''+15550001'' \<mapsto> \<lparr> data = ex_config, expiresAt = 301000 \<rparr>] ''+15550001''
      = (Some ex_config, [''+15550001'' \<mapsto> \<lparr> data = ex_config, expiresAt = 301000 \<rparr>], [])"
  by (simp add: getClientConfigByPhoneNumber_def)


section \<open>Recording and transcription flags\<close>

lemma or_bool_True: "or_bool x True"
  by (simp add: or_bool_def split: option.splits)

lemma compile_config_flags:
  "recordingEnabled (compile_config p ph aps ags ivr ints)
   \<and> transcriptionEnabled (compile_config p ph aps ags ivr ints)"
  by (simp add: compile_config_def or_bool_True)

lemma query_config_flags:
  "query_config db pn = (Some cfg, qs) \<Longrightarrow> recordingEnabled cfg \<and> transcriptionEnabled cfg"
  by (auto simp: query_config_def Let_def compile_config_flags split: if_splits option.splits)

lemma resolver_flags_step:
  assumes "\<forall>pn e. cache pn = Some e \<longrightarrow> recordingEnabled (data e) \<and> transcriptionEnabled (data e)"
      and "getClientConfigByPhoneNumber db now cache pn = (r, cache', qs)"
  shows "(\<forall>pn e. cache' pn = Some e \<longrightarrow> recordingEnabled (data e) \<and> transcriptionEnabled (data e))
         \<and> (\<forall>cfg. r = Some cfg \<longrightarrow> recordingEnabled cfg \<and> transcriptionEnabled cfg)"
  using assms
  by (auto simp: getClientConfigByPhoneNumber_def Let_def
      dest!: query_config_flags split: option.splits if_splits prod.splits)

lemma resolve_all_flags:
  "\<forall>pn e. cache pn = Some e \<longrightarrow> recordingEnabled (data e) \<and> transcriptionEnabled (data e) \<Longrightarrow>
   Some cfg \<in> set (resolve_all cache reqs) \<Longrightarrow> recordingEnabled cfg \<and> transcriptionEnabled cfg"
proof (induction reqs arbitrary: cache)
  case Nil
  then show ?case by simp
next
  case (Cons rq reqs)
  obtain db now pn where rq: "rq = (db, now, pn)" by (cases rq) auto
  obtain r cache' qs where g: "getClientConfigByPhoneNumber db now cache pn = (r, cache', qs)"
    by (cases "getClientConfigByPhoneNumber db now cache pn") auto
  from resolver_flags_step[OF Cons.prems(1) g]
  have c': "\<forall>pn e. cache' pn = Some e \<longrightarrow> recordingEnabled (data e) \<and> transcriptionEnabled (data e)"
    and r: "\<forall>cfg. r = Some cfg \<longrightarrow> recordingEnabled cfg \<and> transcriptionEnabled cfg"
    by auto
  from Cons.prems(2) rq g have "Some cfg = r \<or> Some cfg \<in> set (resolve_all cache' reqs)"
    by simp
  then show ?case using r Cons.IH[OF c'] by auto
qed

text \<open>
  Claim C10.  Starting from the empty cache, every configuration the resolver returns
  over any sequence of calls, from the tables or from the cache, has
  \<open>recordingEnabled\<close> and \<open>transcriptionEnabled\<close> true, whatever the profile stores.
\<close>

theorem resolved_flags_always_true:
  "Some cfg \<in> set (resolve_all Map.empty reqs) \<Longrightarrow> recordingEnabled cfg \<and> transcriptionEnabled cfg"
  by (rule resolve_all_flags) simp_all

text \<open>
  The example profile has both features switched off; it resolves, first from the tables
  and then from the cache, with both flags on, and the direct-binding response carries
  the recording verb.
\<close>

theorem resolved_flags_always_true_witness:
  "call_recording_enabled ex_profile = Some False \<and> transcription_enabled ex_profile = Some False
   \<and> resolve_all Map.empty [(ex_tables, 1000, ''+15550001''), (ex_tables, 2000, ''+15550001'')]
       = [Some ex_config, Some ex_config]
   \<and> recordingEnabled ex_config \<and> transcriptionEnabled ex_config"
proof -
  have r1: "getClientConfigByPhoneNumber ex_tables 1000 Map.empty ''+15550001'' =
     (Some ex_config, [''+15550001'' \<mapsto> \<lparr> data = ex_config, expiresAt = 301000 \<rparr>],
      [''phone_numbers'', ''phone_numbers'', ''ai_agents'', ''ivr_menus'', ''external_integrations''])"
    using ex_resolve by (simp add: ex_req_def)
  have r2: "getClientConfigByPhoneNumber ex_tables 2000
        [''+15550001'' \<mapsto> \<lparr> data = ex_config, expiresAt = 301000 \<rparr>] ''+15550001'' =
     (Some ex_config, [''+15550001'' \<mapsto> \<lparr> data = ex_config, expiresAt = 301000 \<rparr>], [])"
    by (simp add: getClientConfigByPhoneNumber_def)
  have all: "resolve_all Map.empty [(ex_tables, 1000, ''+15550001''), (ex_tables, 2000, ''+15550001'')]
       = [Some ex_config, Some ex_config]"
    by (simp add: r1 r2)
  then have "Some ex_config \<in> set (resolve_all Map.empty [(ex_tables, 1000, ''+15550001''), (ex_tables, 2000, ''+15550001'')])"
    by simp
  from resolved_flags_always_true[OF this] all show ?thesis
    by (simp add: ex_profile_def)
qed


end
